theory Spec2Isabelle
  imports Main "HOL-Library.Multiset"
begin

section \<open>Data model (src/server/types.ts)\<close>

text \<open>
  The interfaces of types.ts become records. Optional fields (\<open>category?\<close>, \<open>endTime?\<close>, ...)
  are options. Field names carry a prefix where the TypeScript name clashes with a HOL
  constant or with a field of another record.
\<close>

record ImageItem =
  img_id :: string
  img_url :: string
  local_path :: string
  img_name :: string
  category :: "string option"
  selected :: "bool option"

record AppSettings =
  geekaiApiKey :: string
  concurrency :: int
  workingDirectory :: string
  ossAccessKeyId :: string
  ossAccessKeySecret :: string
  ossEndpoint :: string
  ossBucketName :: string
  ossFolder :: string
  promptHairstyle :: string
  promptAssembly :: string
  promptReplacement :: string

datatype status = Pending | Processing | Completed | Failed

record TaskItem =
  task_id :: string
  task_type :: string
  task_status :: status
  task_model :: string
  inputImages :: "ImageItem list"
  outputImages :: "ImageItem list"
  startTime :: string
  endTime :: "string option"
  duration :: "string option"
  geekai_task_id :: "string option"
  error_message :: "string option"
  logs :: "string list option"

text \<open>
  \<open>GenerateRequest.stage\<close> is declared as the string enum \<open>WorkflowStage\<close>, but the request
  is the JSON body of \<open>POST /api/generate\<close>, so at run time it is any string.
\<close>

record GenerateRequest =
  stage :: string
  req_model :: string
  req_size :: string
  aspect_ratio :: string
  input_images :: "ImageItem list"
  settings :: AppSettings

definition HAIRSTYLE_EXTRACTION :: string where
  "HAIRSTYLE_EXTRACTION = ''hairstyle_extraction''"

definition DOLL_ASSEMBLY :: string where
  "DOLL_ASSEMBLY = ''doll_assembly''"

definition DOLL_REPLACEMENT :: string where
  "DOLL_REPLACEMENT = ''doll_replacement''"

section \<open>Persistence (src/server/db.ts)\<close>

text \<open>
  \<open>tasks.json\<close> is absent (\<open>None\<close>) or holds the task history, most recent first. The
  per-task log files are written by \<open>DB.addTaskLog\<close> alone; they are part of the effects of a
  pipeline (see \<open>effect\<close> below), not of this record.
\<close>

record db =
  tasks_file :: "TaskItem list option"

definition interrupted :: "TaskItem \<Rightarrow> bool" where
  "interrupted t \<longleftrightarrow> task_status t = Processing \<or> task_status t = Pending"

definition RESTART_MESSAGE :: string where
  "RESTART_MESSAGE = ''System restarted during execution (Check logs for details)''"

text \<open>The callback of \<open>tasks.map\<close> in \<open>DB.recoverState\<close>; \<open>now\<close> is \<open>new Date().toLocaleString()\<close>.\<close>

definition recover_task :: "string \<Rightarrow> TaskItem \<Rightarrow> TaskItem" where
  "recover_task now t =
     (if interrupted t
      then t\<lparr>task_status := Failed, endTime := Some now, error_message := Some RESTART_MESSAGE\<rparr>
      else t)"

text \<open>
  \<open>DB.recoverState\<close>. The clock is read once for every interrupted task, so it is a function
  of the task's position. The file is written only when some task was modified.
\<close>

definition recoverState :: "(nat \<Rightarrow> string) \<Rightarrow> db \<Rightarrow> db" where
  "recoverState clock d =
     (case tasks_file d of
        None \<Rightarrow> d
      | Some tasks \<Rightarrow>
          (let safeTasks = map (\<lambda>(i, t). recover_task (clock i) t) (enumerate 0 tasks);
               modified = list_ex interrupted tasks
           in if modified then d\<lparr>tasks_file := Some safeTasks\<rparr> else d))"

definition stored_tasks :: "db \<Rightarrow> TaskItem list" where
  "stored_tasks d = (case tasks_file d of None \<Rightarrow> [] | Some ts \<Rightarrow> ts)"

text \<open>\<open>DB.addTask\<close>: the new record goes to the front; a missing file counts as empty.\<close>

definition addTask :: "TaskItem \<Rightarrow> db \<Rightarrow> db" where
  "addTask task d = d\<lparr>tasks_file := Some (task # stored_tasks d)\<rparr>"

text \<open>
  \<open>DB.updateTask\<close>: \<open>findIndex\<close> picks the first record with the id, and the fields of
  \<open>updates\<close> are merged into it; \<open>updates\<close> is given as the record update it performs.
  Nothing happens when the file or the id is missing.
\<close>

fun update_first :: "('a \<Rightarrow> bool) \<Rightarrow> ('a \<Rightarrow> 'a) \<Rightarrow> 'a list \<Rightarrow> 'a list" where
  "update_first P f [] = []"
| "update_first P f (x # xs) = (if P x then f x # xs else x # update_first P f xs)"

definition updateTask :: "string \<Rightarrow> (TaskItem \<Rightarrow> TaskItem) \<Rightarrow> db \<Rightarrow> db" where
  "updateTask taskId updates d =
     (case tasks_file d of
        None \<Rightarrow> d
      | Some tasks \<Rightarrow> d\<lparr>tasks_file := Some (update_first (\<lambda>t. task_id t = taskId) updates tasks)\<rparr>)"

definition find_task :: "string \<Rightarrow> db \<Rightarrow> TaskItem option" where
  "find_task taskId d = find (\<lambda>t. task_id t = taskId) (stored_tasks d)"

section \<open>Validation and submission (WorkflowEngine)\<close>

text \<open>The images of \<open>imgs\<close> whose category is \<open>c\<close>: \<open>imgs.filter(i => i.category === c)\<close>.\<close>

definition with_category :: "string \<Rightarrow> ImageItem list \<Rightarrow> ImageItem list" where
  "with_category c imgs = filter (\<lambda>i. category i = Some c) imgs"

text \<open>
  \<open>validateRequest\<close> returns the error message or null, and on success it has replaced
  \<open>req.input_images\<close> in place; the model returns both the verdict and the request as the
  call leaves it. \<open>!s\<close> on a string holds for the empty string only.
\<close>

definition validateRequest :: "GenerateRequest \<Rightarrow> string option \<times> GenerateRequest" where
  "validateRequest req =
     (if geekaiApiKey (settings req) = [] then (Some ''GeekAI API Key is missing. Please check Settings.'', req)
      else if req_model req = [] then (Some ''Please select an AI Model.'', req)
      else if req_size req = [] then (Some ''Please select a Size.'', req)
      else if aspect_ratio req = [] then (Some ''Please select an Aspect Ratio.'', req)
      else
        (let imgs = input_images req in
         if stage req = HAIRSTYLE_EXTRACTION then
           (let ref = with_category ''hair-ref'' imgs;
                man = with_category ''hair-mannequin'' imgs
            in if length ref \<noteq> 1 \<or> length man \<noteq> 1
               then (Some ''Rules: Select exactly 1 Reference image and 1 Mannequin image.'', req)
               else (None, req\<lparr>input_images := ref @ man\<rparr>))
         else if stage req = DOLL_ASSEMBLY then
           (let hair = with_category ''asm-hair'' imgs;
                body = with_category ''asm-body'' imgs;
                cloth = with_category ''asm-cloth'' imgs
            in if length hair \<noteq> 1 \<or> length body \<noteq> 1 \<or> length cloth \<noteq> 1
               then (Some ''Rules: Select exactly 1 Hair, 1 Body, and 1 Cloth image.'', req)
               else (None, req\<lparr>input_images := hair @ body @ cloth\<rparr>))
         else if stage req = DOLL_REPLACEMENT then
           (let ref = with_category ''rep-ref'' imgs;
                prod = with_category ''rep-prod'' imgs
            in if length ref \<noteq> 1 \<or> length prod \<noteq> 1
               then (Some ''Rules: Select exactly 1 Reference image and 1 Product image.'', req)
               else (None, req\<lparr>input_images := ref @ prod\<rparr>))
         else (None, req)))"

text \<open>
  \<open>req.stage.replace(/_/g, ' ')\<close>: every underscore becomes a space.
\<close>

definition replace_underscores :: "string \<Rightarrow> string" where
  "replace_underscores s = map (\<lambda>c. if c = CHR ''_'' then CHR '' '' else c) s"

text \<open>
  \<open>String.prototype.toUpperCase\<close>. On a string of ASCII characters it maps the letters a to z
  to A to Z and leaves every other character. On any other string the result comes from
  the Unicode case tables of the runtime and may differ in length (the sharp s becomes \<open>SS\<close>); the
  tables are not modelled: \<open>unicode\<close> is what the runtime returns for such a string.
\<close>

definition is_ascii :: "string \<Rightarrow> bool" where
  "is_ascii s \<longleftrightarrow> list_all (\<lambda>c. (of_char c :: nat) < 128) s"

definition ascii_upper :: "char \<Rightarrow> char" where
  "ascii_upper c =
     (case map_of (zip ''abcdefghijklmnopqrstuvwxyz'' ''ABCDEFGHIJKLMNOPQRSTUVWXYZ'') c of
        Some u \<Rightarrow> u
      | None \<Rightarrow> c)"

definition toUpperCase :: "(string \<Rightarrow> string) \<Rightarrow> string \<Rightarrow> string" where
  "toUpperCase unicode s = (if is_ascii s then map ascii_upper s else unicode s)"

text \<open>
  The engine: the FIFO queue of validated requests (each with the \<open>_taskId\<close> that
  \<open>submitTask\<close> attaches), the in-flight counter and the limit. \<open>running\<close> is not a field
  of the class: it lists the pipelines \<open>processQueue\<close> has started whose \<open>finally\<close> callback
  has not run yet, that is, the tasks executing at this instant.
\<close>

record server =
  queue :: "(string \<times> GenerateRequest) list"
  activeCount :: int
  maxConcurrency :: int
  running :: "string list"
  database :: db

text \<open>The field initialisers of the class, on a given store.\<close>

definition new_engine :: "db \<Rightarrow> server" where
  "new_engine d = \<lparr>queue = [], activeCount = 0, maxConcurrency = 4, running = [], database = d\<rparr>"

text \<open>\<open>init\<close>: \<open>config.concurrency || 4\<close>.\<close>

definition init :: "AppSettings \<Rightarrow> server \<Rightarrow> server" where
  "init config s = s\<lparr>maxConcurrency := (if concurrency config = 0 then 4 else concurrency config)\<rparr>"

text \<open>
  \<open>processQueue\<close> has no loop: one call starts at most one pipeline. \<open>executeTask\<close> is
  started but not awaited, so the call only records the start; the pipeline itself runs
  later, against the store (see \<open>executeTask\<close> below).
\<close>

definition processQueue :: "server \<Rightarrow> server" where
  "processQueue s =
     (case queue s of
        [] \<Rightarrow> s
      | (taskId, req) # rest \<Rightarrow>
          if activeCount s \<ge> maxConcurrency s then s
          else s\<lparr>queue := rest, activeCount := activeCount s + 1, running := running s @ [taskId]\<rparr>)"

definition updateConcurrency :: "int \<Rightarrow> server \<Rightarrow> server" where
  "updateConcurrency limit s = processQueue (s\<lparr>maxConcurrency := limit\<rparr>)"

text \<open>The \<open>finally\<close> callback of a pipeline that \<open>processQueue\<close> started.\<close>

definition on_settled :: "string \<Rightarrow> server \<Rightarrow> server" where
  "on_settled taskId s =
     processQueue (s\<lparr>activeCount := activeCount s - 1, running := remove1 taskId (running s)\<rparr>)"

text \<open>
  \<open>submitTask\<close>. The upper-casing of strings outside ASCII, the task id
  (\<open>task-<Date.now()>-<uuid prefix>\<close>) and the start time come from the runtime;
  \<open>new_task\<close> is the object literal \<open>newTask\<close>. A validation error is thrown before anything
  is stored.
\<close>

definition new_task :: "(string \<Rightarrow> string) \<Rightarrow> string \<Rightarrow> string \<Rightarrow> GenerateRequest \<Rightarrow> TaskItem" where
  "new_task unicode taskId now req =
     \<lparr>task_id = taskId,
      task_type = toUpperCase unicode (replace_underscores (stage req)),
      task_status = Pending,
      task_model = req_model req,
      inputImages = input_images req,
      outputImages = [],
      startTime = now,
      endTime = None, duration = None, geekai_task_id = None, error_message = None,
      logs = Some []\<rparr>"

definition submitTask ::
  "(string \<Rightarrow> string) \<Rightarrow> string \<Rightarrow> string \<Rightarrow> GenerateRequest \<Rightarrow> server \<Rightarrow>
     (string + TaskItem) \<times> server" where
  "submitTask unicode taskId now req0 s =
     (case validateRequest req0 of
        (Some error, _) \<Rightarrow> (Inl error, s)
      | (None, req) \<Rightarrow>
          (let newTask = new_task unicode taskId now req;
               s1 = s\<lparr>database := addTask newTask (database s)\<rparr>;
               s2 = s1\<lparr>queue := queue s1 @ [(taskId, req)]\<rparr>
           in (Inr newTask, processQueue s2)))"

text \<open>
  What can happen to the engine: a submission (with what \<open>submitTask\<close> reads from the
  runtime), the completion of a running pipeline, a change of the limit. A completion is
  only possible for a pipeline that is running.
\<close>

datatype event =
    Submit "string \<Rightarrow> string" string string GenerateRequest
  | Settled string
  | UpdateConcurrency int

fun step :: "event \<Rightarrow> server \<Rightarrow> server" where
  "step (Submit unicode taskId now req) s = snd (submitTask unicode taskId now req s)"
| "step (Settled taskId) s = (if taskId \<in> set (running s) then on_settled taskId s else s)"
| "step (UpdateConcurrency limit) s = updateConcurrency limit s"

fun run :: "event list \<Rightarrow> server \<Rightarrow> server" where
  "run [] s = s"
| "run (e # es) s = run es (step e s)"

text \<open>No queued task is waiting although a slot is free.\<close>

definition saturated :: "server \<Rightarrow> bool" where
  "saturated s \<longleftrightarrow> queue s = [] \<or> maxConcurrency s \<le> activeCount s"

text \<open>Along the events, no change of the limit sets it below the number of tasks then executing.\<close>

fun never_lowered_below_running :: "event list \<Rightarrow> server \<Rightarrow> bool" where
  "never_lowered_below_running [] s = True"
| "never_lowered_below_running (e # es) s =
     ((case e of UpdateConcurrency limit \<Rightarrow> int (length (running s)) \<le> limit | _ \<Rightarrow> True) \<and>
      never_lowered_below_running es (step e s))"

section \<open>The pipeline of one task (WorkflowEngine.executeTask and its helpers)\<close>

subsection \<open>Strings\<close>

text \<open>Template literals print numbers in decimal.\<close>

definition digit_char :: "nat \<Rightarrow> char" where
  "digit_char d = ''0123456789'' ! d"

fun show_nat :: "nat \<Rightarrow> string" where
  "show_nat n = (if n < 10 then [digit_char n] else show_nat (n div 10) @ [digit_char (n mod 10)])"

declare show_nat.simps [simp del]

definition show_int :: "int \<Rightarrow> string" where
  "show_int i = (if i < 0 then CHR ''-'' # show_nat (nat (- i)) else show_nat (nat i))"

text \<open>\<open>a || b\<close> on a string that may be undefined: an empty or missing \<open>a\<close> gives \<open>b\<close>.\<close>

definition or_else :: "string option \<Rightarrow> string \<Rightarrow> string" where
  "or_else a b = (case a of None \<Rightarrow> b | Some m \<Rightarrow> if m = [] then b else m)"

text \<open>\<open>s.replace(/\/$/, '')\<close> and \<open>s.replace(/^https?:\/\//, '')\<close>.\<close>

definition strip_trailing_slash :: "string \<Rightarrow> string" where
  "strip_trailing_slash s = (if s \<noteq> [] \<and> last s = CHR ''/'' then butlast s else s)"

definition strip_scheme :: "string \<Rightarrow> string" where
  "strip_scheme s =
     (if take 7 s = ''http://'' then drop 7 s
      else if take 8 s = ''https://'' then drop 8 s
      else s)"

text \<open>
  \<open>path.basename\<close> of Node on POSIX paths: trailing slashes are dropped, and what follows
  the last remaining slash is the name.
\<close>

definition path_basename :: "string \<Rightarrow> string" where
  "path_basename p =
     rev (takeWhile (\<lambda>c. c \<noteq> CHR ''/'') (dropWhile (\<lambda>c. c = CHR ''/'') (rev p)))"

subsection \<open>Effects and the environment\<close>

text \<open>
  The body of the generation request built by \<open>constructPayload\<close>. Its \<open>size\<close> is a string,
  or what a lookup in \<open>PIXEL_MAP_2K\<close> finds on the prototype chain of the object literal:
  the property of \<open>Object.prototype\<close> of the given name, which is not a string.
\<close>

datatype size_value = Text string | Inherited string

record payload =
  p_model :: string
  p_image :: "string list"
  p_prompt :: string
  p_size :: "size_value option"
  p_aspect_ratio :: "string option"

text \<open>
  What a pipeline does to the outside, in order: a line appended to the log of a task
  (\<open>DB.addTaskLog\<close>; the line is the message, without the wall-clock prefix), an upload of a
  file under an object key, a post of a payload, a status query, a download, a delay in
  milliseconds.
\<close>

datatype effect =
    Log string string
  | OssPut string string
  | HttpPost payload string
  | HttpGet string string
  | HttpDownload string string
  | Sleep nat

record world =
  store :: db
  effects :: "effect list"

definition addTaskLog :: "string \<Rightarrow> string \<Rightarrow> world \<Rightarrow> world" where
  "addTaskLog taskId message w = w\<lparr>effects := effects w @ [Log taskId message]\<rparr>"

definition perform :: "effect \<Rightarrow> world \<Rightarrow> world" where
  "perform e w = w\<lparr>effects := effects w @ [e]\<rparr>"

definition update_store :: "(db \<Rightarrow> db) \<Rightarrow> world \<Rightarrow> world" where
  "update_store f w = w\<lparr>store := f (store w)\<rparr>"

text \<open>
  An error thrown in JavaScript, as far as the handlers read it: \<open>e.response\<close> (absent for
  a timeout, a network error, a \<open>TypeError\<close> or a plain \<open>Error\<close>) with its status and its
  \<open>data\<close> (absent or falsy, or the \<open>message\<close> field of the body and the body printed as JSON),
  and \<open>e.message\<close>.
\<close>

datatype js_error = JsError "(int \<times> (string option \<times> string) option) option" string

fun response_status :: "js_error \<Rightarrow> int option" where
  "response_status (JsError None m) = None"
| "response_status (JsError (Some (st, d)) m) = Some st"

fun response_data :: "js_error \<Rightarrow> (string option \<times> string) option" where
  "response_data (JsError None m) = None"
| "response_data (JsError (Some (st, d)) m) = d"

fun data_message :: "js_error \<Rightarrow> string option" where
  "data_message (JsError None m) = None"
| "data_message (JsError (Some (st, None)) m) = None"
| "data_message (JsError (Some (st, Some (dm, json))) m) = dm"

fun error_message_of :: "js_error \<Rightarrow> string" where
  "error_message_of (JsError r m) = m"

text \<open>
  The \<open>data\<close> of a response to \<open>axios.post\<close>, as far as \<open>callGeekAI\<close> reads it. Either a value
  on which a property can be read: its \<open>task_id\<close> and the value printed by \<open>JSON.stringify\<close>.
  Or \<open>null\<close> or \<open>undefined\<close>: what the template literal prints for it, and the message of the
  \<open>TypeError\<close> that reading \<open>task_id\<close> on it raises.
\<close>

datatype response_body = Body "string option" string | NoBody string string

fun printed_body :: "response_body \<Rightarrow> string" where
  "printed_body (Body remote_id printed) = printed"
| "printed_body (NoBody printed type_error) = printed"

text \<open>
  The outcome of \<open>axios.post\<close>: resolved with the status and the data, or rejected. The
  outcome of the status query \<open>axios.get\<close>: resolved with \<open>data.task_status\<close>, the urls of
  \<open>data.data\<close> and \<open>data.error?.message\<close>, or rejected.
\<close>

datatype post_result = PostResolved int response_body | PostRejected js_error

datatype get_result = GetResolved string "string list" "string option" | GetRejected js_error

text \<open>
  Everything a pipeline reads from outside: what the checks of the storage client's
  constructor on the bucket name and the endpoint make of the settings (\<open>None\<close> when they
  pass, the message of the error otherwise), the outcome of attempt \<open>i\<close> on the image at
  position \<open>k\<close> of \<open>client.put\<close> (\<open>None\<close> when it resolves, the message of the error
  otherwise), of the \<open>i\<close>-th post, of the \<open>n\<close>-th status query and of the \<open>n\<close>-th download
  attempt; the process diagnostics, \<open>JSON.stringify\<close> on a payload, the wall clock
  when the pipeline settles, the readings of \<open>Date.now()\<close> in their order, \<open>path.resolve\<close>,
  and the time elapsed since a start time, as printed. File-system calls of the pipeline
  are taken to succeed.
\<close>

record environment =
  env_client :: "AppSettings \<Rightarrow> string option"
  env_put :: "nat \<Rightarrow> nat \<Rightarrow> string option"
  env_post :: "nat \<Rightarrow> post_result"
  env_get :: "nat \<Rightarrow> get_result"
  env_download :: "nat \<Rightarrow> string option"
  env_diagnostics :: string
  env_stringify :: "payload \<Rightarrow> string"
  env_now :: string
  env_epoch_ms :: "nat \<Rightarrow> string"
  env_resolve :: "string \<Rightarrow> string \<Rightarrow> string"
  env_elapsed :: "string \<Rightarrow> string"

subsection \<open>Upload of the inputs\<close>

definition oss_key :: "AppSettings \<Rightarrow> ImageItem \<Rightarrow> string" where
  "oss_key st img = strip_trailing_slash (ossFolder st) @ ''/'' @ path_basename (local_path img)"

definition oss_link :: "AppSettings \<Rightarrow> ImageItem \<Rightarrow> string" where
  "oss_link st img =
     ''https://'' @ ossBucketName st @ ''.'' @ strip_scheme (ossEndpoint st) @ ''/'' @ oss_key st img"

definition attempt_line :: "ImageItem \<Rightarrow> nat \<Rightarrow> string" where
  "attempt_line img i = ''Uploading '' @ img_name img @ '' (Attempt '' @ show_nat (i + 1) @ ''/3)...''"

definition attempt_failed_line :: "nat \<Rightarrow> string \<Rightarrow> string" where
  "attempt_failed_line i msg = ''Upload attempt '' @ show_nat (i + 1) @ '' failed: '' @ msg"

text \<open>
  The inner loop \<open>for (let i = 0; i < 3; i++)\<close> for one image, from attempt \<open>i\<close> on;
  \<open>put i\<close> is the outcome of attempt \<open>i\<close>. The result is the error thrown, or the links
  this image has pushed.
\<close>

function upload_attempts ::
  "(nat \<Rightarrow> string option) \<Rightarrow> AppSettings \<Rightarrow> string \<Rightarrow> ImageItem \<Rightarrow> nat \<Rightarrow> world \<Rightarrow>
     (string + string list) \<times> world" where
  "upload_attempts put st taskId img i w =
     (if i < 3 then
        (let w1 = addTaskLog taskId (attempt_line img i) w;
             w2 = perform (OssPut (oss_key st img) (local_path img)) w1
         in case put i of
              None \<Rightarrow> (Inr [oss_link st img], w2)
            | Some msg \<Rightarrow>
                (let w3 = addTaskLog taskId (attempt_failed_line i msg) w2
                 in if i = 2
                    then (Inl (''OSS Upload Failed for '' @ img_name img @ '': '' @ msg), w3)
                    else upload_attempts put st taskId img (i + 1) (perform (Sleep 3000) w3)))
      else (Inr [], w))"
  by pat_completeness auto
termination
  by (relation "measure (\<lambda>(put, st, taskId, img, i, w). 3 - i)") auto

declare upload_attempts.simps [simp del]

text \<open>The outer loop \<open>for (const img of images)\<close>; \<open>k\<close> is the position of the next image.\<close>

fun upload_loop ::
  "(nat \<Rightarrow> nat \<Rightarrow> string option) \<Rightarrow> AppSettings \<Rightarrow> string \<Rightarrow> ImageItem list \<Rightarrow> nat \<Rightarrow>
     string list \<Rightarrow> world \<Rightarrow> (string + string list) \<times> world" where
  "upload_loop put st taskId [] k links w = (Inr links, w)"
| "upload_loop put st taskId (img # imgs) k links w =
     (case upload_attempts (put k) st taskId img 0 w of
        (Inl err, w') \<Rightarrow> (Inl err, w')
      | (Inr pushed, w') \<Rightarrow> upload_loop put st taskId imgs (k + 1) (links @ pushed) w')"

text \<open>
  \<open>new OSS({...})\<close>, the constructor of the storage client (library \<open>ali-oss\<close>): the message
  of the error it throws, or \<open>None\<close> when it returns a client. It does no I/O. It throws on
  an empty access key id or secret; what its further checks on the bucket name and the
  endpoint decide is read from the environment.
\<close>

definition new_OSS :: "(AppSettings \<Rightarrow> string option) \<Rightarrow> AppSettings \<Rightarrow> string option" where
  "new_OSS checks st =
     (if ossAccessKeyId st = [] \<or> ossAccessKeySecret st = []
      then Some ''require accessKeyId, accessKeySecret''
      else checks st)"

text \<open>
  \<open>uploadImagesToOSS\<close>. The guard reads the access key id and the bucket name; then the
  client is constructed, and an error of the constructor leaves the function as it is
  thrown; then the images are uploaded.
\<close>

definition uploadImagesToOSS ::
  "(AppSettings \<Rightarrow> string option) \<Rightarrow> (nat \<Rightarrow> nat \<Rightarrow> string option) \<Rightarrow> ImageItem list \<Rightarrow>
     AppSettings \<Rightarrow> string \<Rightarrow> world \<Rightarrow> (string + string list) \<times> world" where
  "uploadImagesToOSS checks put images st taskId w =
     (if ossAccessKeyId st = [] \<or> ossBucketName st = []
      then (Inl ''OSS Configuration incomplete'', w)
      else case new_OSS checks st of
             Some message \<Rightarrow> (Inl message, w)
           | None \<Rightarrow> upload_loop put st taskId images 0 [] w)"

subsection \<open>Payload\<close>

definition PIXEL_MAP_2K :: "(string \<times> string) list" where
  "PIXEL_MAP_2K =
     [(''1:1'', ''2048x2048''), (''4:3'', ''2304x1728''), (''3:4'', ''1728x2304''),
      (''16:9'', ''2560x1440''), (''9:16'', ''1440x2560''), (''3:2'', ''2496x1664''),
      (''2:3'', ''1664x2496''), (''21:9'', ''3024x1296'')]"

text \<open>
  \<open>PIXEL_MAP_2K[aspect_ratio] || "2048x2048"\<close>. The map is an object literal, so a key that
  is not its own is looked up on \<open>Object.prototype\<close>; what is found there is a function or
  an object, which is truthy.
\<close>

definition OBJECT_PROTOTYPE :: "string list" where
  "OBJECT_PROTOTYPE =
     [''constructor'', ''hasOwnProperty'', ''isPrototypeOf'', ''propertyIsEnumerable'',
      ''toLocaleString'', ''toString'', ''valueOf'', ''__defineGetter__'', ''__defineSetter__'',
      ''__lookupGetter__'', ''__lookupSetter__'', ''__proto__'']"

definition pixels_2K :: "string \<Rightarrow> size_value" where
  "pixels_2K ratio =
     (case map_of PIXEL_MAP_2K ratio of
        Some pixels \<Rightarrow> Text (or_else (Some pixels) ''2048x2048'')
      | None \<Rightarrow> if ratio \<in> set OBJECT_PROTOTYPE then Inherited ratio else Text ''2048x2048'')"

definition constructPayload :: "GenerateRequest \<Rightarrow> string list \<Rightarrow> payload" where
  "constructPayload req ossLinks =
     (let prompt =
            (if stage req = HAIRSTYLE_EXTRACTION then promptHairstyle (settings req)
             else if stage req = DOLL_ASSEMBLY then promptAssembly (settings req)
             else if stage req = DOLL_REPLACEMENT then promptReplacement (settings req)
             else []);
          payload = \<lparr>p_model = req_model req, p_image = ossLinks, p_prompt = prompt,
                     p_size = None, p_aspect_ratio = None\<rparr>;
          isAuto = (aspect_ratio req = ''Auto'')
      in if req_model req = ''doubao-seedream-4.5'' \<or> req_model req = ''doubao-seedream-4.0'' then
           (if req_size req = ''2K'' then
              payload\<lparr>p_size :=
                Some (if \<not> isAuto then pixels_2K (aspect_ratio req) else Text ''2K'')\<rparr>
            else if \<not> isAuto then
              payload\<lparr>p_size := Some (Text (req_size req)),
                      p_prompt := prompt @ '' --ratio '' @ aspect_ratio req\<rparr>
            else payload\<lparr>p_size := Some (Text (req_size req))\<rparr>)
         else if req_model req = ''nano-banana-hd'' \<or> req_model req = ''nano-banana'' then
           (if \<not> isAuto then payload\<lparr>p_aspect_ratio := Some (aspect_ratio req)\<rparr> else payload)
         else if req_model req = ''nano-banana-2'' then
           (if \<not> isAuto
            then payload\<lparr>p_size := Some (Text (req_size req)),
                         p_aspect_ratio := Some (aspect_ratio req)\<rparr>
            else payload\<lparr>p_size := Some (Text (req_size req))\<rparr>)
         else payload\<lparr>p_size := Some (Text (req_size req))\<rparr>)"

subsection \<open>Submission to the generation service\<close>

text \<open>
  The \<open>try\<close> block of \<open>callGeekAI\<close> on the outcome of the post: the task id returned, or the
  error that reaches the \<open>catch\<close> block. In \<open>res.status === 200 && res.data.task_id\<close> the
  task id is read only when the status is 200, and reading it on \<open>null\<close> or \<open>undefined\<close>
  raises a \<open>TypeError\<close>. A response without a task id, or with a status other than 200,
  throws a plain \<open>Error\<close> inside the \<open>try\<close>.
\<close>

definition post_try :: "post_result \<Rightarrow> string \<Rightarrow> world \<Rightarrow> (js_error + string) \<times> world" where
  "post_try res taskId w =
     (case res of
        PostRejected e \<Rightarrow> (Inl e, w)
      | PostResolved status data \<Rightarrow>
          (let w1 = addTaskLog taskId (''API Response Status: '' @ show_int status) w;
               api_returned =
                 JsError None (''API returned '' @ show_int status @ '': '' @ printed_body data)
           in if status = 200 then
                (case data of
                   NoBody printed type_error \<Rightarrow> (Inl (JsError None type_error), w1)
                 | Body remote_id printed \<Rightarrow>
                     if or_else remote_id [] \<noteq> [] then (Inr (or_else remote_id []), w1)
                     else (Inl api_returned, w1))
              else (Inl api_returned, w1)))"

text \<open>
  The logging at the head of the \<open>catch\<close> block of \<open>callGeekAI\<close>, in attempt \<open>i\<close>: the
  message \<open>e.response?.data?.message || e.message\<close> and the world after the log lines.
\<close>

definition post_catch :: "js_error \<Rightarrow> nat \<Rightarrow> string \<Rightarrow> world \<Rightarrow> string \<times> world" where
  "post_catch e i taskId w =
     (let errMsg = or_else (data_message e) (error_message_of e);
          w1 = addTaskLog taskId
                 (''GeekAI API Call Attempt '' @ show_nat (i + 1) @ '' Failed: '' @ errMsg) w;
          w2 = (case response_data e of
                  Some (dm, json) \<Rightarrow> addTaskLog taskId (''API Error Response Data: '' @ json) w1
                | None \<Rightarrow> w1)
      in (errMsg, w2))"

text \<open>The loop of \<open>callGeekAI\<close>, from attempt \<open>i\<close> on.\<close>

function callGeekAI_from ::
  "(nat \<Rightarrow> post_result) \<Rightarrow> payload \<Rightarrow> string \<Rightarrow> string \<Rightarrow> nat \<Rightarrow> world \<Rightarrow>
     (string + string) \<times> world" where
  "callGeekAI_from post pl apiKey taskId i w =
     (if i < 3 then
        (case post_try (post i) taskId (perform (HttpPost pl apiKey) w) of
           (Inr remote_id, w1) \<Rightarrow> (Inr remote_id, w1)
         | (Inl e, w1) \<Rightarrow>
             (case post_catch e i taskId w1 of
                (errMsg, w2) \<Rightarrow>
                  if i = 2 then (Inl (''GeekAI Request Failed: '' @ errMsg), w2)
                  else callGeekAI_from post pl apiKey taskId (i + 1) (perform (Sleep 10000) w2)))
      else (Inl ''GeekAI Unreachable'', w))"
  by pat_completeness auto
termination
  by (relation "measure (\<lambda>(post, pl, apiKey, taskId, i, w). 3 - i)") auto

declare callGeekAI_from.simps [simp del]

definition callGeekAI ::
  "(nat \<Rightarrow> post_result) \<Rightarrow> payload \<Rightarrow> string \<Rightarrow> string \<Rightarrow> world \<Rightarrow> (string + string) \<times> world" where
  "callGeekAI post pl apiKey taskId w = callGeekAI_from post pl apiKey taskId 0 w"

subsection \<open>Polling\<close>

text \<open>How one pass through a \<open>try\<close> block ends: by \<open>return\<close>, by a \<open>throw\<close>, or at its end.\<close>

datatype 'a completion = Returned 'a | Thrown js_error | Fell_through

text \<open>
  The \<open>try\<close> block of \<open>pollGeekAIResult\<close> on the outcome of the status query number
  \<open>pollCount\<close>. On \<open>succeed\<close> it reads \<open>res.data.data[0].url\<close>, which throws a \<open>TypeError\<close> when
  there is no first result. On \<open>failed\<close> it logs the reason and throws
  \<open>new Error(failureMsg)\<close>: a plain error, without a response. \<open>log_progress\<close> is the line
  logged on every tenth query.
\<close>

definition log_progress :: "string \<Rightarrow> nat \<Rightarrow> string \<Rightarrow> world \<Rightarrow> world" where
  "log_progress status pollCount dbTaskId w =
     (if pollCount mod 10 = 0
      then addTaskLog dbTaskId (''Polling... Current Status: '' @ status) w
      else w)"

definition poll_try :: "get_result \<Rightarrow> nat \<Rightarrow> string \<Rightarrow> world \<Rightarrow> string completion \<times> world" where
  "poll_try res pollCount dbTaskId w =
     (case res of
        GetRejected e \<Rightarrow> (Thrown e, w)
      | GetResolved status urls err \<Rightarrow>
          (let w1 = log_progress status pollCount dbTaskId w
           in if status = ''succeed'' then
                (case urls of
                   u # rest \<Rightarrow> (Returned u, w1)
                 | [] \<Rightarrow> (Thrown (JsError None ''Cannot read properties of undefined''), w1))
              else if status = ''failed'' then
                (let failureMsg = or_else err ''Task failed remotely'';
                     w2 = addTaskLog dbTaskId (''Remote Task Failed: '' @ failureMsg) w1
                 in (Thrown (JsError None failureMsg), w2))
              else (Fell_through, w1)))"

text \<open>
  The \<open>catch\<close> block of the same loop: an error with a response status from 400 to 499 is
  logged and rethrown with the message of the response (\<open>Some\<close>); any other error is a
  glitch and polling goes on (\<open>None\<close>).
\<close>

definition poll_catch :: "js_error \<Rightarrow> string \<Rightarrow> world \<Rightarrow> string option \<times> world" where
  "poll_catch e dbTaskId w =
     (case response_status e of
        None \<Rightarrow> (None, w)
      | Some st \<Rightarrow>
          if 400 \<le> st \<and> st < 500
          then (let errMsg = or_else (data_message e) ''API Error''
                in (Some errMsg, addTaskLog dbTaskId (''Polling Fatal Error: '' @ errMsg) w))
          else (None, w))"

text \<open>
  The loop \<open>while (true)\<close> of \<open>pollGeekAIResult\<close>, entered with the given \<open>pollCount\<close>. It may
  run forever: \<open>None\<close> is a call that never returns, \<open>Some (Inr url)\<close> a call that returns the
  result url, \<open>Some (Inl msg)\<close> a call that throws.
\<close>

partial_function (option) pollGeekAIResult_from ::
  "(nat \<Rightarrow> get_result) \<Rightarrow> string \<Rightarrow> string \<Rightarrow> string \<Rightarrow> nat \<Rightarrow> world \<Rightarrow>
     ((string + string) \<times> world) option" where
  "pollGeekAIResult_from get taskId apiKey dbTaskId pollCount w =
     (let w1 = perform (Sleep 3000) w;
          n = pollCount + 1;
          w2 = perform (HttpGet (''https://geekai.co/api/v1/images/'' @ taskId) apiKey) w1
      in case poll_try (get n) n dbTaskId w2 of
           (Returned u, w3) \<Rightarrow> Some (Inr u, w3)
         | (Fell_through, w3) \<Rightarrow> pollGeekAIResult_from get taskId apiKey dbTaskId n w3
         | (Thrown e, w3) \<Rightarrow>
             (case poll_catch e dbTaskId w3 of
                (Some errMsg, w4) \<Rightarrow> Some (Inl errMsg, w4)
              | (None, w4) \<Rightarrow> pollGeekAIResult_from get taskId apiKey dbTaskId n w4))"

definition pollGeekAIResult ::
  "(nat \<Rightarrow> get_result) \<Rightarrow> string \<Rightarrow> string \<Rightarrow> string \<Rightarrow> world \<Rightarrow>
     ((string + string) \<times> world) option" where
  "pollGeekAIResult get taskId apiKey dbTaskId w = pollGeekAIResult_from get taskId apiKey dbTaskId 0 w"

subsection \<open>Download\<close>

text \<open>The loop of \<open>downloadImage\<close>: it retries without a bound; \<open>n\<close> counts the attempts.\<close>

partial_function (option) download_from ::
  "(nat \<Rightarrow> string option) \<Rightarrow> string \<Rightarrow> string \<Rightarrow> string \<Rightarrow> nat \<Rightarrow> world \<Rightarrow> (string \<times> world) option" where
  "download_from dl url filePath taskId n w =
     (let w1 = perform (HttpDownload url filePath) w
      in case dl n of
           None \<Rightarrow> Some (filePath, w1)
         | Some msg \<Rightarrow>
             download_from dl url filePath taskId (n + 1)
               (perform (Sleep 3000) (addTaskLog taskId (''Download failed (retrying): '' @ msg) w1)))"

definition downloadImage ::
  "environment \<Rightarrow> string \<Rightarrow> string \<Rightarrow> string \<Rightarrow> world \<Rightarrow> (string \<times> world) option" where
  "downloadImage env url saveDir taskId w =
     (let fileName = ''gen_'' @ env_epoch_ms env 0 @ ''_'' @
                       path_basename (takeWhile (\<lambda>c. c \<noteq> CHR ''?'') url);
          filePath = env_resolve env saveDir fileName
      in download_from (env_download env) url filePath taskId 0 w)"

subsection \<open>executeTask\<close>

text \<open>The loop that logs the links, from index \<open>i\<close>.\<close>

fun log_links :: "string \<Rightarrow> nat \<Rightarrow> string list \<Rightarrow> world \<Rightarrow> world" where
  "log_links taskId i [] w = w"
| "log_links taskId i (l # ls) w =
     log_links taskId (i + 1) ls (addTaskLog taskId (''OSS Link ['' @ show_nat i @ '']: '' @ l) w)"

text \<open>
  The \<open>try\<close> block of \<open>executeTask\<close> up to the call of \<open>pollGeekAIResult\<close>: the message of the
  error thrown on the way, or the remote task id with which polling begins, and the world
  at that moment.
\<close>

definition executeTask_until_poll ::
  "environment \<Rightarrow> string \<Rightarrow> GenerateRequest \<Rightarrow> world \<Rightarrow> (string + string) \<times> world" where
  "executeTask_until_poll env taskId req w =
     (let w1 = update_store (updateTask taskId (\<lambda>t. t\<lparr>task_status := Processing\<rparr>)) w;
          w2 = addTaskLog taskId (''Task init. '' @ env_diagnostics env) w1;
          w3 = addTaskLog taskId
                 (''Stage: '' @ stage req @ '', Model: '' @ req_model req @ '', Size: '' @
                  req_size req @ '', Ratio: '' @ aspect_ratio req) w2;
          w4 = addTaskLog taskId
                 (''Starting upload of '' @ show_nat (length (input_images req)) @
                  '' images to Aliyun OSS...'') w3
      in case uploadImagesToOSS (env_client env) (env_put env) (input_images req) (settings req)
                taskId w4 of
           (Inl message, w5) \<Rightarrow> (Inl message, w5)
         | (Inr ossLinks, w5) \<Rightarrow>
             (let w6 = addTaskLog taskId ''OSS upload completed successfully.'' w5;
                  w7 = log_links taskId 0 ossLinks w6;
                  w8 = addTaskLog taskId ''Constructing API payload...'' w7;
                  pl = constructPayload req ossLinks;
                  w9 = addTaskLog taskId ''--- API REQUEST PAYLOAD ---'' w8;
                  w10 = addTaskLog taskId (env_stringify env pl) w9;
                  w11 = addTaskLog taskId ''---------------------------'' w10;
                  w12 = addTaskLog taskId ''Submitting task to GeekAI API...'' w11
              in case callGeekAI (env_post env) pl (geekaiApiKey (settings req)) taskId w12 of
                   (Inl message, w13) \<Rightarrow> (Inl message, w13)
                 | (Inr taskUuid, w13) \<Rightarrow>
                     (let w14 = update_store
                                  (updateTask taskId (\<lambda>t. t\<lparr>geekai_task_id := Some taskUuid\<rparr>)) w13;
                          w15 = addTaskLog taskId
                                  (''Task submitted successfully. Remote ID: '' @ taskUuid) w14;
                          w16 = addTaskLog taskId ''Polling for results...'' w15
                      in (Inr taskUuid, w16))))"

text \<open>The \<open>catch\<close> block of \<open>executeTask\<close>, on the message of the error caught.\<close>

definition executeTask_catch :: "environment \<Rightarrow> string \<Rightarrow> string \<Rightarrow> world \<Rightarrow> world" where
  "executeTask_catch env taskId message w =
     (let errMsg = (if message = [] then ''Unknown error'' else message);
          w1 = addTaskLog taskId (''CRITICAL FAILURE: '' @ errMsg) w
      in update_store
           (updateTask taskId
              (\<lambda>t. t\<lparr>task_status := Failed, endTime := Some (env_now env),
                      error_message := Some errMsg\<rparr>)) w1)"

definition calculateDuration :: "environment \<Rightarrow> string \<Rightarrow> world \<Rightarrow> string" where
  "calculateDuration env taskId w =
     (case find_task taskId (store w) of
        None \<Rightarrow> ''0s''
      | Some t \<Rightarrow> env_elapsed env (startTime t))"

text \<open>The rest of the \<open>try\<close> block, once polling has returned the result url.\<close>

definition executeTask_finish ::
  "environment \<Rightarrow> string \<Rightarrow> GenerateRequest \<Rightarrow> string \<Rightarrow> world \<Rightarrow> world option" where
  "executeTask_finish env taskId req resultUrl w =
     (let w1 = addTaskLog taskId (''Image generation succeeded. Result URL: '' @ resultUrl) w;
          w2 = addTaskLog taskId ''Downloading result...'' w1
      in case downloadImage env resultUrl (workingDirectory (settings req)) taskId w2 of
           None \<Rightarrow> None
         | Some (localPath, w3) \<Rightarrow>
             (let w4 = addTaskLog taskId (''Image saved to '' @ localPath) w3;
                  outputImg = \<lparr>img_id = ''out-'' @ env_epoch_ms env 1,
                               img_url = ''/files/'' @ path_basename localPath,
                               local_path = localPath,
                               img_name = path_basename localPath,
                               category = None,
                               selected = Some False\<rparr>;
                  dur = calculateDuration env taskId w4;
                  w5 = update_store
                         (updateTask taskId
                            (\<lambda>t. t\<lparr>task_status := Completed, endTime := Some (env_now env),
                                    duration := Some dur, outputImages := [outputImg]\<rparr>)) w4
              in Some (addTaskLog taskId (''Task completed in '' @ dur @ ''.'') w5)))"

text \<open>
  \<open>executeTask\<close>: the world when the pipeline has settled, or \<open>None\<close> when it never does.
\<close>

definition executeTask :: "environment \<Rightarrow> string \<Rightarrow> GenerateRequest \<Rightarrow> world \<Rightarrow> world option" where
  "executeTask env taskId req w =
     (case executeTask_until_poll env taskId req w of
        (Inl message, w1) \<Rightarrow> Some (executeTask_catch env taskId message w1)
      | (Inr taskUuid, w1) \<Rightarrow>
          (case pollGeekAIResult (env_get env) taskUuid (geekaiApiKey (settings req)) taskId w1 of
             None \<Rightarrow> None
           | Some (Inl message, w2) \<Rightarrow> Some (executeTask_catch env taskId message w2)
           | Some (Inr resultUrl, w2) \<Rightarrow> executeTask_finish env taskId req resultUrl w2))"

subsection \<open>Reading a trace of effects\<close>

fun is_log :: "effect \<Rightarrow> bool" where
  "is_log (Log t m) = True"
| "is_log e = False"


fun is_get :: "effect \<Rightarrow> bool" where
  "is_get (HttpGet u k) = True"
| "is_get e = False"

text \<open>The elements of a list with \<open>s\<close> between each two of them.\<close>

fun separated :: "'a \<Rightarrow> 'a list \<Rightarrow> 'a list" where
  "separated s [] = []"
| "separated s [x] = [x]"
| "separated s (x # y # ys) = x # s # separated s (y # ys)"

text \<open>The engine keeps its in-flight counter equal to the number of executing pipelines.\<close>

definition counter_exact :: "server \<Rightarrow> bool" where
  "counter_exact s \<longleftrightarrow> activeCount s = int (length (running s))"

section \<open>Vocabulary for the statements about the pipeline\<close>

text \<open>A status query whose answer says that the remote task has failed.\<close>

fun reports_failed :: "get_result \<Rightarrow> bool" where
  "reports_failed (GetResolved status urls err) = (status = ''failed'')"
| "reports_failed (GetRejected e) = False"

text \<open>The trace of one upload attempt and of the line that reports its failure.\<close>

definition attempt_trace :: "AppSettings \<Rightarrow> string \<Rightarrow> ImageItem \<Rightarrow> nat \<Rightarrow> effect list" where
  "attempt_trace st taskId img i =
     [Log taskId (attempt_line img i), OssPut (oss_key st img) (local_path img)]"

definition failure_trace :: "string \<Rightarrow> nat \<Rightarrow> string \<Rightarrow> effect list" where
  "failure_trace taskId i msg = [Log taskId (attempt_failed_line i msg)]"

definition upload_failed :: "ImageItem \<Rightarrow> string \<Rightarrow> string" where
  "upload_failed img msg = ''OSS Upload Failed for '' @ img_name img @ '': '' @ msg"

definition add_effects :: "effect list \<Rightarrow> world \<Rightarrow> world" where
  "add_effects es w = w\<lparr>effects := effects w @ es\<rparr>"

text \<open>
  What \<open>callGeekAI\<close> makes of the outcome of a post: the remote task id when the attempt
  counts as a success, the error that reaches the \<open>catch\<close> block otherwise, and the message
  logged and reported for it.
\<close>

fun accepted :: "post_result \<Rightarrow> string option" where
  "accepted (PostResolved status (Body remote_id printed)) =
     (if status = 200 \<and> or_else remote_id [] \<noteq> [] then remote_id else None)"
| "accepted (PostResolved status (NoBody printed type_error)) = None"
| "accepted (PostRejected e) = None"

fun thrown_by :: "post_result \<Rightarrow> js_error" where
  "thrown_by (PostResolved status (Body remote_id printed)) =
     JsError None (''API returned '' @ show_int status @ '': '' @ printed)"
| "thrown_by (PostResolved status (NoBody printed type_error)) =
     (if status = 200 then JsError None type_error
      else JsError None (''API returned '' @ show_int status @ '': '' @ printed))"
| "thrown_by (PostRejected e) = e"

definition failure_message :: "post_result \<Rightarrow> string" where
  "failure_message r = or_else (data_message (thrown_by r)) (error_message_of (thrown_by r))"

definition first_accepted :: "(nat \<Rightarrow> post_result) \<Rightarrow> string option" where
  "first_accepted post =
     (case accepted (post 0) of
        Some rid \<Rightarrow> Some rid
      | None \<Rightarrow> (case accepted (post 1) of Some rid \<Rightarrow> Some rid | None \<Rightarrow> accepted (post 2)))"

text \<open>
  The attempts \<open>callGeekAI\<close> is to make: it stops at the first that counts as a success,
  and after the third. The trace of attempt \<open>i\<close>: the post; the status line when the post
  resolved; and, when the attempt does not count as a success, the line that reports it and,
  for an error with response data, the line with the data. The trace of the call: the
  traces of its attempts with a delay of 10000 ms between each two.
\<close>

definition posts_made :: "(nat \<Rightarrow> post_result) \<Rightarrow> nat" where
  "posts_made post =
     (if accepted (post 0) \<noteq> None then 1 else if accepted (post 1) \<noteq> None then 2 else 3)"

definition post_trace :: "post_result \<Rightarrow> payload \<Rightarrow> string \<Rightarrow> string \<Rightarrow> nat \<Rightarrow> effect list" where
  "post_trace r pl apiKey taskId i =
     [HttpPost pl apiKey] @
     (case r of
        PostResolved status data \<Rightarrow> [Log taskId (''API Response Status: '' @ show_int status)]
      | PostRejected e \<Rightarrow> []) @
     (if accepted r \<noteq> None then []
      else [Log taskId (''GeekAI API Call Attempt '' @ show_nat (i + 1) @ '' Failed: '' @
                        failure_message r)] @
           (case response_data (thrown_by r) of
              Some (dm, json) \<Rightarrow> [Log taskId (''API Error Response Data: '' @ json)]
            | None \<Rightarrow> []))"

definition posts_trace :: "(nat \<Rightarrow> post_result) \<Rightarrow> payload \<Rightarrow> string \<Rightarrow> string \<Rightarrow> effect list" where
  "posts_trace post pl apiKey taskId =
     concat (separated [Sleep 10000]
               (map (\<lambda>i. post_trace (post i) pl apiKey taskId i) [0..<posts_made post]))"





text \<open>The status queries made so far.\<close>

definition queries :: "world \<Rightarrow> effect list" where
  "queries w = filter is_get (effects w)"

text \<open>An operation that leaves the store alone and makes no status query.\<close>

definition quiet :: "world \<Rightarrow> world \<Rightarrow> bool" where
  "quiet w w' \<longleftrightarrow> store w' = store w \<and> queries w' = queries w"

text \<open>
  The storage settings are complete, the storage client is constructed, and every input
  is uploaded within three attempts.
\<close>

definition uploads_succeed :: "environment \<Rightarrow> GenerateRequest \<Rightarrow> bool" where
  "uploads_succeed env req \<longleftrightarrow>
     ossAccessKeyId (settings req) \<noteq> [] \<and> ossBucketName (settings req) \<noteq> [] \<and>
     ossAccessKeySecret (settings req) \<noteq> [] \<and> env_client env (settings req) = None \<and>
     (\<forall>k<length (input_images req). \<exists>i<3. env_put env k i = None)"

section \<open>The validation rules as the specification words them\<close>

text \<open>
  Section 4.2 of the specification: per stage, exactly one image of each role; and a
  non-empty credential, model, size and aspect ratio. The roles are the category tags of
  the image catalogue. A stage outside the three has no composition rule.
\<close>

definition tagged_once :: "string \<Rightarrow> ImageItem list \<Rightarrow> bool" where
  "tagged_once c imgs \<longleftrightarrow> count_list (map category imgs) (Some c) = 1"

definition composition_ok :: "string \<Rightarrow> ImageItem list \<Rightarrow> bool" where
  "composition_ok st imgs =
     (if st = ''hairstyle_extraction'' then
        tagged_once ''hair-ref'' imgs \<and> tagged_once ''hair-mannequin'' imgs
      else if st = ''doll_assembly'' then
        tagged_once ''asm-hair'' imgs \<and> tagged_once ''asm-body'' imgs \<and> tagged_once ''asm-cloth'' imgs
      else if st = ''doll_replacement'' then
        tagged_once ''rep-ref'' imgs \<and> tagged_once ''rep-prod'' imgs
      else True)"

definition violates_rules :: "GenerateRequest \<Rightarrow> bool" where
  "violates_rules req \<longleftrightarrow>
     geekaiApiKey (settings req) = [] \<or> req_model req = [] \<or> req_size req = [] \<or>
     aspect_ratio req = [] \<or> \<not> composition_ok (stage req) (input_images req)"

definition known_stage :: "string \<Rightarrow> bool" where
  "known_stage st \<longleftrightarrow>
     st = ''hairstyle_extraction'' \<or> st = ''doll_assembly'' \<or> st = ''doll_replacement''"

text \<open>The messages \<open>validateRequest\<close> can return.\<close>

definition validation_messages :: "string list" where
  "validation_messages =
     [''GeekAI API Key is missing. Please check Settings.'',
      ''Please select an AI Model.'',
      ''Please select a Size.'',
      ''Please select an Aspect Ratio.'',
      ''Rules: Select exactly 1 Reference image and 1 Mannequin image.'',
      ''Rules: Select exactly 1 Hair, 1 Body, and 1 Cloth image.'',
      ''Rules: Select exactly 1 Reference image and 1 Product image.'']"

section \<open>Sample data\<close>

text \<open>Concrete inputs on which the definitions are run.\<close>

definition sample_image :: "string \<Rightarrow> string \<Rightarrow> ImageItem" where
  "sample_image n c =
     \<lparr>img_id = n, img_url = ''/files/inputs/'' @ n, local_path = ''/srv/data/inputs/'' @ n,
      img_name = n, category = Some c, selected = Some True\<rparr>"

definition sample_settings :: AppSettings where
  "sample_settings =
     \<lparr>geekaiApiKey = ''sk-1'', concurrency = 2, workingDirectory = ''./output'',
      ossAccessKeyId = ''LTAI'', ossAccessKeySecret = ''secret'',
      ossEndpoint = ''https://oss-cn-hangzhou.aliyuncs.com'', ossBucketName = ''dolls'',
      ossFolder = ''doll-workflow/'', promptHairstyle = ''extract the hairstyle'',
      promptAssembly = ''assemble the doll'', promptReplacement = ''replace the doll''\<rparr>"

definition sample_request :: "string \<Rightarrow> ImageItem list \<Rightarrow> GenerateRequest" where
  "sample_request st imgs =
     \<lparr>stage = st, req_model = ''nano-banana'', req_size = ''1K'', aspect_ratio = ''Auto'',
      input_images = imgs, settings = sample_settings\<rparr>"

definition empty_db :: db where
  "empty_db = \<lparr>tasks_file = None\<rparr>"

text \<open>An engine with the given limit on an empty store.\<close>

definition engine_with_limit :: "int \<Rightarrow> server" where
  "engine_with_limit n = init (sample_settings\<lparr>concurrency := n\<rparr>) (new_engine empty_db)"

text \<open>A request that passes validation as it is, and three submissions of it.\<close>

definition valid_request :: GenerateRequest where
  "valid_request =
     sample_request ''doll_replacement''
       [sample_image ''r.png'' ''rep-ref'', sample_image ''p.png'' ''rep-prod'']"

text \<open>A runtime is needed for strings outside ASCII only; the samples have none.\<close>

definition no_unicode :: "string \<Rightarrow> string" where
  "no_unicode s = s"

text \<open>A runtime that also upper-cases the letter e with an acute accent (byte E9 to byte C9).\<close>

definition latin1_upper :: "string \<Rightarrow> string" where
  "latin1_upper s = map (\<lambda>c. if c = CHR 0xE9 then CHR 0xC9 else ascii_upper c) s"

definition three_submissions :: "event list" where
  "three_submissions =
     [Submit no_unicode ''task-A'' ''10:00'' valid_request,
      Submit no_unicode ''task-B'' ''10:01'' valid_request,
      Submit no_unicode ''task-C'' ''10:02'' valid_request]"

definition sample_world :: world where
  "sample_world = \<lparr>store = empty_db, effects = []\<rparr>"

definition flaky_put :: "nat \<Rightarrow> nat \<Rightarrow> string option" where
  "flaky_put k i = (if k = 0 \<and> i < 2 then Some ''connect ETIMEDOUT'' else None)"


definition two_images :: "ImageItem list" where
  "two_images = [sample_image ''a.png'' ''hair-ref'', sample_image ''b.png'' ''hair-mannequin'']"

text \<open>A remote task that is reported failed for ever, and one reported failed, then succeeded.\<close>

definition always_failed :: "nat \<Rightarrow> get_result" where
  "always_failed n = GetResolved ''failed'' [] (Some ''quota exceeded'')"

definition failed_then_succeed :: "nat \<Rightarrow> get_result" where
  "failed_then_succeed n =
     (if n = 1 then GetResolved ''failed'' [] (Some ''quota exceeded'')
      else GetResolved ''succeed'' [''https://cdn.example/result.png''] None)"

text \<open>A stored task used to run the definitions on concrete histories.\<close>

definition sample_task :: "string \<Rightarrow> status \<Rightarrow> TaskItem" where
  "sample_task tid st =
     \<lparr>task_id = tid, task_type = ''DOLL ASSEMBLY'', task_status = st, task_model = ''nano-banana'',
      inputImages = [], outputImages = [], startTime = ''1/1/2025, 10:00:00 AM'',
      endTime = None, duration = None, geekai_task_id = None, error_message = None,
      logs = Some []\<rparr>"

text \<open>
  Posts whose response has no task id: the first time only, then every time; posts
  whose response has a body \<open>null\<close>. A payload and an environment around them, and a world in which the task is stored as pending.
\<close>

definition id_missing_once :: "nat \<Rightarrow> post_result" where
  "id_missing_once i =
     (if i = 0 then PostResolved 200 (Body None ''{}'')
      else PostResolved 200 (Body (Some ''remote-7'') ''{task_id:remote-7}''))"

definition id_always_missing :: "nat \<Rightarrow> post_result" where
  "id_always_missing i = PostResolved 200 (Body None ''{}'')"

definition body_always_null :: "nat \<Rightarrow> post_result" where
  "body_always_null i = PostResolved 200 (NoBody ''null'' ''Cannot read properties of null'')"

definition sample_payload :: payload where
  "sample_payload =
     \<lparr>p_model = ''nano-banana'', p_image = [], p_prompt = ''extract the hairstyle'',
      p_size = None, p_aspect_ratio = None\<rparr>"

definition sample_env :: "(nat \<Rightarrow> post_result) \<Rightarrow> environment" where
  "sample_env post =
     \<lparr>env_client = (\<lambda>st. None), env_put = flaky_put, env_post = post, env_get = failed_then_succeed,
      env_download = (\<lambda>n. None), env_diagnostics = ''PID: 41, Mem: RSS:80MB Heap:20MB'',
      env_stringify = (\<lambda>pl. ''{}''), env_now = ''1/1/2025, 10:05:00 AM'',
      env_epoch_ms = (\<lambda>n. ''1735725900000''), env_resolve = (\<lambda>dir file. dir @ ''/'' @ file),
      env_elapsed = (\<lambda>start. ''300.0s'')\<rparr>"

definition stored_world :: world where
  "stored_world = \<lparr>store = \<lparr>tasks_file = Some [sample_task ''task-1'' Pending]\<rparr>, effects = []\<rparr>"

section \<open>Startup recovery\<close>

lemma recover_task_id: "\<not> interrupted t \<Longrightarrow> recover_task now t = t"
  by (simp add: recover_task_def)

lemma recover_all_terminal:
  "\<not> list_ex interrupted ts \<Longrightarrow> map (\<lambda>(i, t). recover_task (clock i) t) (enumerate n ts) = ts"
  by (induction ts arbitrary: n) (simp_all add: recover_task_id)

lemma stored_tasks_recoverState:
  "stored_tasks (recoverState clock d) =
     map (\<lambda>(i, t). recover_task (clock i) t) (enumerate 0 (stored_tasks d))"
  by (cases "tasks_file d")
     (simp_all add: recoverState_def stored_tasks_def Let_def recover_all_terminal)

text \<open>
  C5. After \<open>DB.recoverState\<close> the history has the same length and order; a task stored as
  pending or processing is the stored record with exactly the three fields status
  (failed), endTime (the clock reading) and error_message (the restart message) replaced;
  a task stored as completed or failed is the stored record itself.
\<close>

theorem recoverState_marks_interrupted_failed:
  "length (stored_tasks (recoverState clock d)) = length (stored_tasks d) \<and>
   (\<forall>i < length (stored_tasks d).
      (let t = stored_tasks d ! i; t' = stored_tasks (recoverState clock d) ! i in
       (task_status t = Pending \<or> task_status t = Processing \<longrightarrow>
          t' = t\<lparr>task_status := Failed, endTime := Some (clock i),
                 error_message := Some ''System restarted during execution (Check logs for details)''\<rparr>) \<and>
       (task_status t = Completed \<or> task_status t = Failed \<longrightarrow> t' = t)))"
proof -
  have len: "length (stored_tasks (recoverState clock d)) = length (stored_tasks d)"
    by (simp add: stored_tasks_recoverState)
  have nth: "stored_tasks (recoverState clock d) ! i = recover_task (clock i) (stored_tasks d ! i)"
    if "i < length (stored_tasks d)" for i
    using that by (simp add: stored_tasks_recoverState nth_enumerate_eq)
  show ?thesis
    using len
    by (auto simp: nth Let_def recover_task_def interrupted_def RESTART_MESSAGE_def)
qed

theorem recoverState_marks_interrupted_failed_witness:
  "stored_tasks (recoverState (\<lambda>i. ''1/1/2025, 11:00:00 AM'')
      \<lparr>tasks_file = Some [sample_task ''task-2'' Processing, sample_task ''task-1'' Completed]\<rparr>) ! 0 =
   (sample_task ''task-2'' Processing)
      \<lparr>task_status := Failed, endTime := Some ''1/1/2025, 11:00:00 AM'',
       error_message := Some ''System restarted during execution (Check logs for details)''\<rparr> \<and>
   stored_tasks (recoverState (\<lambda>i. ''1/1/2025, 11:00:00 AM'')
      \<lparr>tasks_file = Some [sample_task ''task-2'' Processing, sample_task ''task-1'' Completed]\<rparr>) ! 1 =
     sample_task ''task-1'' Completed"
  using recoverState_marks_interrupted_failed
    [of "\<lambda>i. ''1/1/2025, 11:00:00 AM''"
        "\<lparr>tasks_file = Some [sample_task ''task-2'' Processing, sample_task ''task-1'' Completed]\<rparr>"]
  by (simp add: stored_tasks_def sample_task_def Let_def)

section \<open>Validation\<close>

lemma length_with_category: "length (with_category c imgs) = count_list (map category imgs) (Some c)"
  by (induction imgs) (simp_all add: with_category_def)

lemma tagged_once_iff: "tagged_once c imgs \<longleftrightarrow> length (with_category c imgs) = 1"
  by (simp add: tagged_once_def length_with_category)

lemma validateRequest_rejects:
  assumes "violates_rules req"
  shows "\<exists>msg \<in> set validation_messages. validateRequest req = (Some msg, req)"
  using assms
  by (auto simp: violates_rules_def validateRequest_def validation_messages_def Let_def
      composition_ok_def tagged_once_iff HAIRSTYLE_EXTRACTION_def DOLL_ASSEMBLY_def
      DOLL_REPLACEMENT_def split: if_splits)

lemma validateRequest_accepts:
  assumes "\<not> violates_rules req"
  shows "\<exists>req'. validateRequest req = (None, req')"
  using assms
  by (auto simp: violates_rules_def validateRequest_def validation_messages_def Let_def
      composition_ok_def tagged_once_iff HAIRSTYLE_EXTRACTION_def DOLL_ASSEMBLY_def
      DOLL_REPLACEMENT_def split: if_splits)

lemma filter_singleton_perm:
  assumes "mset ys = mset xs" and "length (filter P xs) = 1"
  shows "filter P ys = filter P xs"
proof -
  from assms(2) obtain x where x: "filter P xs = [x]"
    by (cases "filter P xs") auto
  have "mset (filter P ys) = mset (filter P xs)"
    using assms(1) by (simp only: mset_filter)
  with x have "mset (filter P ys) = {#x#}" by simp
  then have "filter P ys = [x]" by (simp only: mset_single_iff)
  with x show ?thesis by simp
qed

lemma with_category_perm:
  "mset ys = mset xs \<Longrightarrow> length (with_category c xs) = 1 \<Longrightarrow> with_category c ys = with_category c xs"
  unfolding with_category_def by (rule filter_singleton_perm)

lemma with_category_single:
  assumes "length (with_category c xs) = 1"
  shows "\<exists>x. with_category c xs = [x] \<and> category x = Some c \<and> x \<in> set xs"
proof -
  from assms obtain x where x: "with_category c xs = [x]"
    by (cases "with_category c xs") auto
  then have "x \<in> set (filter (\<lambda>i. category i = Some c) xs)"
    by (simp add: with_category_def)
  then show ?thesis using x by auto
qed


lemma validateRequest_fields:
  assumes "validateRequest req = (None, req')"
  shows "geekaiApiKey (settings req) \<noteq> [] \<and> req_model req \<noteq> [] \<and> req_size req \<noteq> [] \<and>
         aspect_ratio req \<noteq> []"
  using assms by (auto simp: validateRequest_def split: if_splits)

lemma validateRequest_hairstyle:
  assumes "validateRequest req = (None, req')" and "stage req = ''hairstyle_extraction''"
  shows "length (with_category ''hair-ref'' (input_images req)) = 1 \<and>
         length (with_category ''hair-mannequin'' (input_images req)) = 1 \<and>
         req' = req\<lparr>input_images := with_category ''hair-ref'' (input_images req) @
                                     with_category ''hair-mannequin'' (input_images req)\<rparr>"
  using assms
  by (auto simp: validateRequest_def Let_def HAIRSTYLE_EXTRACTION_def split: if_splits)

lemma validateRequest_assembly:
  assumes "validateRequest req = (None, req')" and "stage req = ''doll_assembly''"
  shows "length (with_category ''asm-hair'' (input_images req)) = 1 \<and>
         length (with_category ''asm-body'' (input_images req)) = 1 \<and>
         length (with_category ''asm-cloth'' (input_images req)) = 1 \<and>
         req' = req\<lparr>input_images := with_category ''asm-hair'' (input_images req) @
                                     with_category ''asm-body'' (input_images req) @
                                     with_category ''asm-cloth'' (input_images req)\<rparr>"
  using assms
  by (auto simp: validateRequest_def Let_def HAIRSTYLE_EXTRACTION_def DOLL_ASSEMBLY_def
      split: if_splits)

lemma validateRequest_replacement:
  assumes "validateRequest req = (None, req')" and "stage req = ''doll_replacement''"
  shows "length (with_category ''rep-ref'' (input_images req)) = 1 \<and>
         length (with_category ''rep-prod'' (input_images req)) = 1 \<and>
         req' = req\<lparr>input_images := with_category ''rep-ref'' (input_images req) @
                                     with_category ''rep-prod'' (input_images req)\<rparr>"
  using assms
  by (auto simp: validateRequest_def Let_def HAIRSTYLE_EXTRACTION_def DOLL_ASSEMBLY_def
      DOLL_REPLACEMENT_def split: if_splits)

lemma validateRequest_perm:
  assumes ok: "validateRequest req = (None, req')"
    and known: "stage req = ''hairstyle_extraction'' \<or> stage req = ''doll_assembly'' \<or>
                stage req = ''doll_replacement''"
    and perm: "mset imgs = mset (input_images req)"
  shows "validateRequest (req\<lparr>input_images := imgs\<rparr>) = (None, req')"
proof -
  have eq: "with_category c imgs = with_category c (input_images req)"
    if "length (with_category c (input_images req)) = 1" for c
    using perm that by (rule with_category_perm)
  note fields = validateRequest_fields [OF ok]
  from known show ?thesis
  proof (elim disjE)
    assume st: "stage req = ''hairstyle_extraction''"
    from validateRequest_hairstyle [OF ok st] show ?thesis
      using fields st by (simp add: validateRequest_def Let_def HAIRSTYLE_EXTRACTION_def eq)
  next
    assume st: "stage req = ''doll_assembly''"
    from validateRequest_assembly [OF ok st] show ?thesis
      using fields st
      by (simp add: validateRequest_def Let_def HAIRSTYLE_EXTRACTION_def DOLL_ASSEMBLY_def eq)
  next
    assume st: "stage req = ''doll_replacement''"
    from validateRequest_replacement [OF ok st] show ?thesis
      using fields st
      by (simp add: validateRequest_def Let_def HAIRSTYLE_EXTRACTION_def DOLL_ASSEMBLY_def
          DOLL_REPLACEMENT_def eq)
  qed
qed

lemma validateRequest_unknown_stage:
  assumes "\<not> known_stage (stage req)"
    and "geekaiApiKey (settings req) \<noteq> []" "req_model req \<noteq> []" "req_size req \<noteq> []"
        "aspect_ratio req \<noteq> []"
  shows "validateRequest req = (None, req)"
  using assms
  by (simp add: validateRequest_def known_stage_def HAIRSTYLE_EXTRACTION_def DOLL_ASSEMBLY_def
      DOLL_REPLACEMENT_def)

lemma validateRequest_stage:
  "validateRequest req = (v, req') \<Longrightarrow> stage req' = stage req \<and> req_model req' = req_model req"
  by (auto simp: validateRequest_def Let_def split: if_splits)

lemma submitTask_accepted:
  assumes "validateRequest req0 = (None, req)"
  shows "submitTask unicode taskId now req0 s =
           (Inr (new_task unicode taskId now req),
            processQueue (s\<lparr>database := addTask (new_task unicode taskId now req) (database s),
                            queue := queue s @ [(taskId, req)]\<rparr>))"
  using assms by (simp add: submitTask_def new_task_def Let_def)

lemma processQueue_database: "database (processQueue s) = database s"
  by (simp add: processQueue_def split: list.splits)

lemma processQueue_keeps_or_starts:
  "x \<in> set (queue s) \<Longrightarrow> x \<in> set (queue (processQueue s)) \<or> fst x \<in> set (running (processQueue s))"
  by (auto simp: processQueue_def split: list.splits)

lemma ascii_upper_letter:
  assumes "j < 26"
  shows "ascii_upper (''abcdefghijklmnopqrstuvwxyz'' ! j) = ''ABCDEFGHIJKLMNOPQRSTUVWXYZ'' ! j"
proof -
  have "map_of (zip ''abcdefghijklmnopqrstuvwxyz'' ''ABCDEFGHIJKLMNOPQRSTUVWXYZ'')
          (''abcdefghijklmnopqrstuvwxyz'' ! j) = Some (''ABCDEFGHIJKLMNOPQRSTUVWXYZ'' ! j)"
    using assms by (intro map_of_zip_nth) simp_all
  then show ?thesis by (simp only: ascii_upper_def option.case)
qed

lemma ascii_upper_other:
  assumes "c \<notin> set ''abcdefghijklmnopqrstuvwxyz''"
  shows "ascii_upper c = c"
proof -
  have "map_of (zip ''abcdefghijklmnopqrstuvwxyz'' ''ABCDEFGHIJKLMNOPQRSTUVWXYZ'') c = None"
    using assms by (subst map_of_zip_is_None) simp_all
  then show ?thesis by (simp only: ascii_upper_def option.case)
qed

lemma is_ascii_replace_underscores: "is_ascii (replace_underscores s) = is_ascii s"
proof -
  have "(of_char (CHR '' '') :: nat) < 128" and "(of_char (CHR ''_'') :: nat) < 128"
    by code_simp+
  then show ?thesis
    by (induction s) (simp_all add: is_ascii_def replace_underscores_def)
qed

lemma stage_labels:
  "toUpperCase unicode (replace_underscores ''hairstyle_extraction'') = ''HAIRSTYLE EXTRACTION''"
  "toUpperCase unicode (replace_underscores ''doll_assembly'') = ''DOLL ASSEMBLY''"
  "toUpperCase unicode (replace_underscores ''doll_replacement'') = ''DOLL REPLACEMENT''"
proof -
  have a: "is_ascii (replace_underscores ''hairstyle_extraction'')"
    "is_ascii (replace_underscores ''doll_assembly'')"
    "is_ascii (replace_underscores ''doll_replacement'')"
    by code_simp+
  have u: "map ascii_upper (replace_underscores ''hairstyle_extraction'') = ''HAIRSTYLE EXTRACTION''"
    "map ascii_upper (replace_underscores ''doll_assembly'') = ''DOLL ASSEMBLY''"
    "map ascii_upper (replace_underscores ''doll_replacement'') = ''DOLL REPLACEMENT''"
    by code_simp+
  show "toUpperCase unicode (replace_underscores ''hairstyle_extraction'') = ''HAIRSTYLE EXTRACTION''"
    "toUpperCase unicode (replace_underscores ''doll_assembly'') = ''DOLL ASSEMBLY''"
    "toUpperCase unicode (replace_underscores ''doll_replacement'') = ''DOLL REPLACEMENT''"
    by (simp_all only: toUpperCase_def a u if_True)
qed

lemma ascii_label:
  assumes "is_ascii st"
  shows "length (toUpperCase unicode (replace_underscores st)) = length st"
    and "i < length st \<Longrightarrow> st ! i = CHR ''_'' \<Longrightarrow>
         toUpperCase unicode (replace_underscores st) ! i = CHR '' ''"
    and "i < length st \<Longrightarrow> j < 26 \<Longrightarrow> st ! i = ''abcdefghijklmnopqrstuvwxyz'' ! j \<Longrightarrow>
         toUpperCase unicode (replace_underscores st) ! i = ''ABCDEFGHIJKLMNOPQRSTUVWXYZ'' ! j"
    and "i < length st \<Longrightarrow> st ! i \<noteq> CHR ''_'' \<Longrightarrow> st ! i \<notin> set ''abcdefghijklmnopqrstuvwxyz'' \<Longrightarrow>
         toUpperCase unicode (replace_underscores st) ! i = st ! i"
proof -
  have sp: "ascii_upper (CHR '' '') = CHR '' ''"
    by (rule ascii_upper_other) simp
  have us: "CHR ''_'' \<notin> set ''abcdefghijklmnopqrstuvwxyz''"
    by simp
  from assms have eq: "toUpperCase unicode (replace_underscores st) =
      map ascii_upper (replace_underscores st)"
    by (simp add: toUpperCase_def is_ascii_replace_underscores)
  show "length (toUpperCase unicode (replace_underscores st)) = length st"
    unfolding eq by (simp add: replace_underscores_def)
  show "toUpperCase unicode (replace_underscores st) ! i = CHR '' ''"
    if "i < length st" "st ! i = CHR ''_''"
    using that unfolding eq by (simp add: replace_underscores_def sp)
  show "toUpperCase unicode (replace_underscores st) ! i = ''ABCDEFGHIJKLMNOPQRSTUVWXYZ'' ! j"
    if "i < length st" "j < 26" "st ! i = ''abcdefghijklmnopqrstuvwxyz'' ! j"
  proof -
    from that(2) have "''abcdefghijklmnopqrstuvwxyz'' ! j \<in> set ''abcdefghijklmnopqrstuvwxyz''"
      by (intro nth_mem) simp
    with us that(3) have "st ! i \<noteq> CHR ''_''" by metis
    with that show ?thesis
      unfolding eq by (simp add: replace_underscores_def ascii_upper_letter)
  qed
  show "toUpperCase unicode (replace_underscores st) ! i = st ! i"
    if "i < length st" "st ! i \<noteq> CHR ''_''" "st ! i \<notin> set ''abcdefghijklmnopqrstuvwxyz''"
    using that unfolding eq by (simp add: replace_underscores_def ascii_upper_other)
qed

text \<open>
  C3. A request that violates a validation rule (an empty credential, model, size or
  aspect ratio, or the image composition its stage requires) makes \<open>submitTask\<close> throw one
  of the validation messages, and the engine and the store are exactly as before: no
  record is added to the history and nothing is queued.
\<close>

theorem submitTask_rejects_invalid:
  assumes "violates_rules req"
  shows "\<exists>msg \<in> set validation_messages. submitTask unicode taskId now req s = (Inl msg, s)"
proof -
  from validateRequest_rejects [OF assms] obtain msg
    where "msg \<in> set validation_messages" and "validateRequest req = (Some msg, req)"
    by blast
  then show ?thesis
    by (auto simp: submitTask_def)
qed

theorem submitTask_rejects_invalid_witness:
  "violates_rules (sample_request ''hairstyle_extraction''
      [sample_image ''a.png'' ''hair-ref'', sample_image ''b.png'' ''hair-ref'']) \<and>
   submitTask no_unicode ''task-1'' ''10:00''
      (sample_request ''hairstyle_extraction''
         [sample_image ''a.png'' ''hair-ref'', sample_image ''b.png'' ''hair-ref''])
      (engine_with_limit 2) =
     (Inl ''Rules: Select exactly 1 Reference image and 1 Mannequin image.'', engine_with_limit 2)"
proof -
  have v: "violates_rules (sample_request ''hairstyle_extraction''
      [sample_image ''a.png'' ''hair-ref'', sample_image ''b.png'' ''hair-ref''])"
    by (simp add: violates_rules_def composition_ok_def tagged_once_def sample_request_def
        sample_image_def sample_settings_def)
  from submitTask_rejects_invalid [OF v, of no_unicode "''task-1''" "''10:00''" "engine_with_limit 2"]
  show ?thesis
    using v
    by (auto simp: submitTask_def validateRequest_def with_category_def sample_request_def
        sample_image_def sample_settings_def HAIRSTYLE_EXTRACTION_def Let_def)
qed

text \<open>
  C4. When \<open>validateRequest\<close> accepts a request of one of the three stages, the request it
  leaves behind holds exactly the images of the stage's roles in the documented order:
  reference then mannequin, hair then body then cloth, reference then product, each taken
  from the images supplied. Supplying the same images in any other order gives the same
  result.
\<close>

theorem validateRequest_role_order:
  assumes "validateRequest req = (None, req')"
  shows "(stage req = ''hairstyle_extraction'' \<longrightarrow>
            (\<exists>r m. input_images req' = [r, m] \<and>
                   category r = Some ''hair-ref'' \<and> category m = Some ''hair-mannequin'' \<and>
                   r \<in> set (input_images req) \<and> m \<in> set (input_images req))) \<and>
         (stage req = ''doll_assembly'' \<longrightarrow>
            (\<exists>h b c. input_images req' = [h, b, c] \<and>
                   category h = Some ''asm-hair'' \<and> category b = Some ''asm-body'' \<and>
                   category c = Some ''asm-cloth'' \<and>
                   h \<in> set (input_images req) \<and> b \<in> set (input_images req) \<and>
                   c \<in> set (input_images req))) \<and>
         (stage req = ''doll_replacement'' \<longrightarrow>
            (\<exists>r p. input_images req' = [r, p] \<and>
                   category r = Some ''rep-ref'' \<and> category p = Some ''rep-prod'' \<and>
                   r \<in> set (input_images req) \<and> p \<in> set (input_images req))) \<and>
         (stage req = ''hairstyle_extraction'' \<or> stage req = ''doll_assembly'' \<or>
          stage req = ''doll_replacement'' \<longrightarrow>
            (\<forall>imgs. mset imgs = mset (input_images req) \<longrightarrow>
                    validateRequest (req\<lparr>input_images := imgs\<rparr>) = (None, req')))"
proof (intro conjI impI allI)
  assume st: "stage req = ''hairstyle_extraction''"
  from validateRequest_hairstyle [OF assms st]
  show "\<exists>r m. input_images req' = [r, m] \<and>
                   category r = Some ''hair-ref'' \<and> category m = Some ''hair-mannequin'' \<and>
                   r \<in> set (input_images req) \<and> m \<in> set (input_images req)"
    using with_category_single [of "''hair-ref''" "input_images req"]
      with_category_single [of "''hair-mannequin''" "input_images req"]
    by auto
next
  assume st: "stage req = ''doll_assembly''"
  from validateRequest_assembly [OF assms st]
  show "\<exists>h b c. input_images req' = [h, b, c] \<and>
                   category h = Some ''asm-hair'' \<and> category b = Some ''asm-body'' \<and>
                   category c = Some ''asm-cloth'' \<and>
                   h \<in> set (input_images req) \<and> b \<in> set (input_images req) \<and>
                   c \<in> set (input_images req)"
    using with_category_single [of "''asm-hair''" "input_images req"]
      with_category_single [of "''asm-body''" "input_images req"]
      with_category_single [of "''asm-cloth''" "input_images req"]
    by auto
next
  assume st: "stage req = ''doll_replacement''"
  from validateRequest_replacement [OF assms st]
  show "\<exists>r p. input_images req' = [r, p] \<and>
                   category r = Some ''rep-ref'' \<and> category p = Some ''rep-prod'' \<and>
                   r \<in> set (input_images req) \<and> p \<in> set (input_images req)"
    using with_category_single [of "''rep-ref''" "input_images req"]
      with_category_single [of "''rep-prod''" "input_images req"]
    by auto
next
  fix imgs
  assume "stage req = ''hairstyle_extraction'' \<or> stage req = ''doll_assembly'' \<or>
          stage req = ''doll_replacement''"
    and "mset imgs = mset (input_images req)"
  with assms show "validateRequest (req\<lparr>input_images := imgs\<rparr>) = (None, req')"
    by (rule validateRequest_perm)
qed

theorem validateRequest_role_order_witness:
  "validateRequest (sample_request ''doll_replacement''
      [sample_image ''p.png'' ''rep-prod'', sample_image ''r.png'' ''rep-ref'']) =
     (None, sample_request ''doll_replacement''
        [sample_image ''r.png'' ''rep-ref'', sample_image ''p.png'' ''rep-prod'']) \<and>
   validateRequest (sample_request ''doll_replacement''
      [sample_image ''r.png'' ''rep-ref'', sample_image ''p.png'' ''rep-prod'']) =
     (None, sample_request ''doll_replacement''
        [sample_image ''r.png'' ''rep-ref'', sample_image ''p.png'' ''rep-prod''])"
proof -
  have v: "validateRequest (sample_request ''doll_replacement''
      [sample_image ''p.png'' ''rep-prod'', sample_image ''r.png'' ''rep-ref'']) =
     (None, sample_request ''doll_replacement''
        [sample_image ''r.png'' ''rep-ref'', sample_image ''p.png'' ''rep-prod''])"
    by (simp add: validateRequest_def with_category_def sample_request_def sample_image_def
        sample_settings_def HAIRSTYLE_EXTRACTION_def DOLL_ASSEMBLY_def DOLL_REPLACEMENT_def
        Let_def)
  have s: "stage (sample_request ''doll_replacement''
      [sample_image ''p.png'' ''rep-prod'', sample_image ''r.png'' ''rep-ref'']) =
      ''doll_replacement''"
    by (simp add: sample_request_def)
  have p: "mset [sample_image ''r.png'' ''rep-ref'', sample_image ''p.png'' ''rep-prod''] =
     mset (input_images (sample_request ''doll_replacement''
      [sample_image ''p.png'' ''rep-prod'', sample_image ''r.png'' ''rep-ref'']))"
    by (simp add: sample_request_def)
  from validateRequest_role_order [OF v] s p
  have "validateRequest ((sample_request ''doll_replacement''
      [sample_image ''p.png'' ''rep-prod'', sample_image ''r.png'' ''rep-ref''])
        \<lparr>input_images := [sample_image ''r.png'' ''rep-ref'', sample_image ''p.png'' ''rep-prod'']\<rparr>) =
     (None, sample_request ''doll_replacement''
        [sample_image ''r.png'' ''rep-ref'', sample_image ''p.png'' ''rep-prod''])"
    by blast
  then show ?thesis
    using v by (simp add: sample_request_def)
qed

text \<open>
  C9. A request whose stage is none of the three known ones, with a non-empty credential,
  model, size and aspect ratio, passes \<open>validateRequest\<close> whatever its images are and is
  left as it was; \<open>submitTask\<close> then stores a record with those images at the front of the
  history and appends the request to the queue before admission runs, so that afterwards
  the request is waiting in the queue or its pipeline has been started.
\<close>

theorem unknown_stage_is_accepted:
  assumes "\<not> known_stage (stage req)"
    and "geekaiApiKey (settings req) \<noteq> []" "req_model req \<noteq> []" "req_size req \<noteq> []"
        "aspect_ratio req \<noteq> []"
  shows "validateRequest req = (None, req) \<and>
         (\<exists>task s'. submitTask unicode taskId now req s = (Inr task, s') \<and>
            inputImages task = input_images req \<and>
            stored_tasks (database s') = task # stored_tasks (database s) \<and>
            s' = processQueue (s\<lparr>database := addTask task (database s),
                                  queue := queue s @ [(taskId, req)]\<rparr>) \<and>
            ((taskId, req) \<in> set (queue s') \<or> taskId \<in> set (running s')))"
proof -
  have v: "validateRequest req = (None, req)"
    using assms by (rule validateRequest_unknown_stage)
  let ?task = "new_task unicode taskId now req"
  let ?s2 = "s\<lparr>database := addTask ?task (database s), queue := queue s @ [(taskId, req)]\<rparr>"
  have sub: "submitTask unicode taskId now req s = (Inr ?task, processQueue ?s2)"
    using v by (rule submitTask_accepted)
  have img: "inputImages ?task = input_images req"
    by (simp add: new_task_def)
  have st: "stored_tasks (database (processQueue ?s2)) = ?task # stored_tasks (database s)"
    by (simp add: processQueue_database addTask_def stored_tasks_def)
  have "(taskId, req) \<in> set (queue ?s2)" by simp
  from processQueue_keeps_or_starts [OF this]
  have q: "(taskId, req) \<in> set (queue (processQueue ?s2)) \<or> taskId \<in> set (running (processQueue ?s2))"
    by simp
  from v sub img st q show ?thesis by blast
qed

theorem unknown_stage_is_accepted_witness:
  "\<not> known_stage (stage (sample_request ''custom'' [sample_image ''x.png'' ''rep-prod''])) \<and>
   validateRequest (sample_request ''custom'' [sample_image ''x.png'' ''rep-prod'']) =
     (None, sample_request ''custom'' [sample_image ''x.png'' ''rep-prod'']) \<and>
   inputImages (hd (stored_tasks (database (snd (submitTask no_unicode ''task-1'' ''10:00''
      (sample_request ''custom'' [sample_image ''x.png'' ''rep-prod'']) (engine_with_limit 2)))))) =
     [sample_image ''x.png'' ''rep-prod'']"
proof -
  have k: "\<not> known_stage (stage (sample_request ''custom'' [sample_image ''x.png'' ''rep-prod'']))"
    by (simp add: known_stage_def sample_request_def)
  have f: "geekaiApiKey (settings (sample_request ''custom'' [sample_image ''x.png'' ''rep-prod''])) \<noteq> []"
    "req_model (sample_request ''custom'' [sample_image ''x.png'' ''rep-prod'']) \<noteq> []"
    "req_size (sample_request ''custom'' [sample_image ''x.png'' ''rep-prod'']) \<noteq> []"
    "aspect_ratio (sample_request ''custom'' [sample_image ''x.png'' ''rep-prod'']) \<noteq> []"
    by (simp_all add: sample_request_def sample_settings_def)
  from unknown_stage_is_accepted [OF k f, of no_unicode "''task-1''" "''10:00''" "engine_with_limit 2"]
  show ?thesis
    using k by (auto simp: sample_request_def)
qed

text \<open>
  C10. For a request that passes validation, the record \<open>submitTask\<close> returns and stores at
  the front of the history is made of the task id, a label in the field \<open>type\<close>, the status
  pending, the model, the normalized images, no outputs, the start time and an empty log.
  The record type has no stage field; the stage enters through the label alone. The
  label is the stage with every underscore replaced by a space, in upper case. For a
  stage of ASCII characters this is spelled out position by position: an underscore
  gives a space, a letter a to z gives the letter A to Z, and any other character stays;
  so the three stages give \<open>HAIRSTYLE EXTRACTION\<close>, \<open>DOLL ASSEMBLY\<close> and \<open>DOLL REPLACEMENT\<close>.
  For any other stage the label is what the runtime's upper-casing makes of the stage
  with its underscores replaced.
\<close>

theorem persisted_type_is_stage_label:
  assumes "validateRequest req0 = (None, req)"
  shows "\<exists>s' r. submitTask unicode taskId now req0 s = (Inr r, s') \<and>
          stored_tasks (database s') = r # stored_tasks (database s) \<and>
          r = \<lparr>task_id = taskId, task_type = task_type r, task_status = Pending,
               task_model = req_model req0, inputImages = input_images req,
               outputImages = [], startTime = now, endTime = None, duration = None,
               geekai_task_id = None, error_message = None, logs = Some []\<rparr> \<and>
          (is_ascii (stage req0) \<longrightarrow>
             length (task_type r) = length (stage req0) \<and>
             (\<forall>i<length (stage req0).
                (stage req0 ! i = CHR ''_'' \<longrightarrow> task_type r ! i = CHR '' '') \<and>
                (\<forall>j<26. stage req0 ! i = ''abcdefghijklmnopqrstuvwxyz'' ! j \<longrightarrow>
                        task_type r ! i = ''ABCDEFGHIJKLMNOPQRSTUVWXYZ'' ! j) \<and>
                (stage req0 ! i \<noteq> CHR ''_'' \<and>
                 stage req0 ! i \<notin> set ''abcdefghijklmnopqrstuvwxyz'' \<longrightarrow>
                   task_type r ! i = stage req0 ! i))) \<and>
          (\<not> is_ascii (stage req0) \<longrightarrow>
             task_type r =
               unicode (map (\<lambda>c. if c = CHR ''_'' then CHR '' '' else c) (stage req0))) \<and>
          (stage req0 = ''hairstyle_extraction'' \<longrightarrow> task_type r = ''HAIRSTYLE EXTRACTION'') \<and>
          (stage req0 = ''doll_assembly'' \<longrightarrow> task_type r = ''DOLL ASSEMBLY'') \<and>
          (stage req0 = ''doll_replacement'' \<longrightarrow> task_type r = ''DOLL REPLACEMENT'')"
proof -
  let ?r = "new_task unicode taskId now req"
  let ?s' = "processQueue (s\<lparr>database := addTask ?r (database s),
                              queue := queue s @ [(taskId, req)]\<rparr>)"
  note same = validateRequest_stage [OF assms]
  have sub: "submitTask unicode taskId now req0 s = (Inr ?r, ?s')"
    using assms by (rule submitTask_accepted)
  have st: "stored_tasks (database ?s') = ?r # stored_tasks (database s)"
    by (simp add: processQueue_database addTask_def stored_tasks_def)
  have ty: "task_type ?r = toUpperCase unicode (replace_underscores (stage req0))"
    by (simp add: new_task_def same)
  have rec: "?r = \<lparr>task_id = taskId, task_type = task_type ?r, task_status = Pending,
               task_model = req_model req0, inputImages = input_images req,
               outputImages = [], startTime = now, endTime = None, duration = None,
               geekai_task_id = None, error_message = None, logs = Some []\<rparr>"
    by (simp add: new_task_def same)
  have asc: "is_ascii (stage req0) \<longrightarrow>
             length (task_type ?r) = length (stage req0) \<and>
             (\<forall>i<length (stage req0).
                (stage req0 ! i = CHR ''_'' \<longrightarrow> task_type ?r ! i = CHR '' '') \<and>
                (\<forall>j<26. stage req0 ! i = ''abcdefghijklmnopqrstuvwxyz'' ! j \<longrightarrow>
                        task_type ?r ! i = ''ABCDEFGHIJKLMNOPQRSTUVWXYZ'' ! j) \<and>
                (stage req0 ! i \<noteq> CHR ''_'' \<and>
                 stage req0 ! i \<notin> set ''abcdefghijklmnopqrstuvwxyz'' \<longrightarrow>
                   task_type ?r ! i = stage req0 ! i))"
    unfolding ty using ascii_label [where st = "stage req0" and unicode = unicode] by blast
  have uni: "\<not> is_ascii (stage req0) \<longrightarrow>
             task_type ?r =
               unicode (map (\<lambda>c. if c = CHR ''_'' then CHR '' '' else c) (stage req0))"
    unfolding ty toUpperCase_def is_ascii_replace_underscores
    by (simp add: replace_underscores_def)
  have three: "stage req0 = ''hairstyle_extraction'' \<longrightarrow> task_type ?r = ''HAIRSTYLE EXTRACTION''"
    "stage req0 = ''doll_assembly'' \<longrightarrow> task_type ?r = ''DOLL ASSEMBLY''"
    "stage req0 = ''doll_replacement'' \<longrightarrow> task_type ?r = ''DOLL REPLACEMENT''"
    unfolding ty by (auto simp only: stage_labels)
  from sub st rec asc uni three show ?thesis by blast
qed

theorem persisted_type_is_stage_label_witness:
  "validateRequest (sample_request ''my_own_stage_2'' []) =
     (None, sample_request ''my_own_stage_2'' []) \<and>
   is_ascii (stage (sample_request ''my_own_stage_2'' [])) \<and>
   (\<exists>s' r. submitTask no_unicode ''task-1'' ''10:00'' (sample_request ''my_own_stage_2'' [])
              (engine_with_limit 2) = (Inr r, s') \<and>
           stored_tasks (database s') = [r] \<and>
           length (task_type r) = 14 \<and>
           task_type r ! 0 = CHR ''M'' \<and> task_type r ! 2 = CHR '' '' \<and>
           task_type r ! 6 = CHR '' '' \<and> task_type r ! 12 = CHR '' '' \<and>
           task_type r ! 13 = CHR ''2'') \<and>
   validateRequest (sample_request ''doll_assembly''
      [sample_image ''c.png'' ''asm-cloth'', sample_image ''h.png'' ''asm-hair'',
       sample_image ''b.png'' ''asm-body'']) =
     (None, sample_request ''doll_assembly''
        [sample_image ''h.png'' ''asm-hair'', sample_image ''b.png'' ''asm-body'',
         sample_image ''c.png'' ''asm-cloth'']) \<and>
   (\<exists>s' r. submitTask no_unicode ''task-2'' ''10:01''
              (sample_request ''doll_assembly''
                 [sample_image ''c.png'' ''asm-cloth'', sample_image ''h.png'' ''asm-hair'',
                  sample_image ''b.png'' ''asm-body'']) (engine_with_limit 2) = (Inr r, s') \<and>
           task_type r = ''DOLL ASSEMBLY'' \<and>
           inputImages r =
             [sample_image ''h.png'' ''asm-hair'', sample_image ''b.png'' ''asm-body'',
              sample_image ''c.png'' ''asm-cloth'']) \<and>
   validateRequest (sample_request (''caf'' @ [CHR 0xE9] @ ''_doll'') []) =
     (None, sample_request (''caf'' @ [CHR 0xE9] @ ''_doll'') []) \<and>
   \<not> is_ascii (stage (sample_request (''caf'' @ [CHR 0xE9] @ ''_doll'') [])) \<and>
   (\<exists>s' r. submitTask latin1_upper ''task-3'' ''10:02''
              (sample_request (''caf'' @ [CHR 0xE9] @ ''_doll'') [])
              (engine_with_limit 2) = (Inr r, s') \<and>
           task_type r = ''CAF'' @ [CHR 0xC9] @ '' DOLL'')"
proof -
  let ?req = "sample_request ''my_own_stage_2'' []"
  have v: "validateRequest ?req = (None, ?req)"
    by (simp add: validateRequest_def sample_request_def sample_settings_def
        HAIRSTYLE_EXTRACTION_def DOLL_ASSEMBLY_def DOLL_REPLACEMENT_def)
  have st: "stage ?req = ''my_own_stage_2''"
    by (simp add: sample_request_def)
  have a: "is_ascii (stage ?req)"
    unfolding st by code_simp
  have e: "stored_tasks (database (engine_with_limit 2)) = []"
    by (simp add: engine_with_limit_def init_def new_engine_def empty_db_def stored_tasks_def)
  have m: "''abcdefghijklmnopqrstuvwxyz'' ! 12 = CHR ''m''"
    "''ABCDEFGHIJKLMNOPQRSTUVWXYZ'' ! 12 = CHR ''M''" "(12::nat) < 26"
    by simp_all
  from persisted_type_is_stage_label [OF v, of no_unicode "''task-1''" "''10:00''"
      "engine_with_limit 2"]
  obtain s' r where sub: "submitTask no_unicode ''task-1'' ''10:00'' ?req (engine_with_limit 2) = (Inr r, s')"
    and stored: "stored_tasks (database s') = r # stored_tasks (database (engine_with_limit 2))"
    and asc: "is_ascii (stage ?req) \<longrightarrow>
             length (task_type r) = length (stage ?req) \<and>
             (\<forall>i<length (stage ?req).
                (stage ?req ! i = CHR ''_'' \<longrightarrow> task_type r ! i = CHR '' '') \<and>
                (\<forall>j<26. stage ?req ! i = ''abcdefghijklmnopqrstuvwxyz'' ! j \<longrightarrow>
                        task_type r ! i = ''ABCDEFGHIJKLMNOPQRSTUVWXYZ'' ! j) \<and>
                (stage ?req ! i \<noteq> CHR ''_'' \<and>
                 stage ?req ! i \<notin> set ''abcdefghijklmnopqrstuvwxyz'' \<longrightarrow>
                   task_type r ! i = stage ?req ! i))"
    by blast
  from asc a have len: "length (task_type r) = 14"
    and pos: "\<And>i. i < 14 \<Longrightarrow>
                (''my_own_stage_2'' ! i = CHR ''_'' \<longrightarrow> task_type r ! i = CHR '' '') \<and>
                (\<forall>j<26. ''my_own_stage_2'' ! i = ''abcdefghijklmnopqrstuvwxyz'' ! j \<longrightarrow>
                        task_type r ! i = ''ABCDEFGHIJKLMNOPQRSTUVWXYZ'' ! j) \<and>
                (''my_own_stage_2'' ! i \<noteq> CHR ''_'' \<and>
                 ''my_own_stage_2'' ! i \<notin> set ''abcdefghijklmnopqrstuvwxyz'' \<longrightarrow>
                   task_type r ! i = ''my_own_stage_2'' ! i)"
    by (simp_all add: st)
  have z: "''my_own_stage_2'' ! 0 = CHR ''m''" by simp
  from pos [of 0] have "\<forall>j<26. ''my_own_stage_2'' ! 0 = ''abcdefghijklmnopqrstuvwxyz'' ! j \<longrightarrow>
      task_type r ! 0 = ''ABCDEFGHIJKLMNOPQRSTUVWXYZ'' ! j"
    by simp
  then have "''my_own_stage_2'' ! 0 = ''abcdefghijklmnopqrstuvwxyz'' ! 12 \<longrightarrow>
      task_type r ! 0 = ''ABCDEFGHIJKLMNOPQRSTUVWXYZ'' ! 12"
    using m(3) by blast
  then have p0: "task_type r ! 0 = CHR ''M''"
    unfolding z m by simp
  from pos [of 2] have p2: "task_type r ! 2 = CHR '' ''" by simp
  from pos [of 6] have p6: "task_type r ! 6 = CHR '' ''" by simp
  from pos [of 12] have p12: "task_type r ! 12 = CHR '' ''" by simp
  from pos [of 13] have p13: "task_type r ! 13 = CHR ''2''" by simp
  from sub stored e len p0 p2 p6 p12 p13
  have first: "\<exists>s' r. submitTask no_unicode ''task-1'' ''10:00'' ?req (engine_with_limit 2) =
             (Inr r, s') \<and>
           stored_tasks (database s') = [r] \<and>
           length (task_type r) = 14 \<and>
           task_type r ! 0 = CHR ''M'' \<and> task_type r ! 2 = CHR '' '' \<and>
           task_type r ! 6 = CHR '' '' \<and> task_type r ! 12 = CHR '' '' \<and>
           task_type r ! 13 = CHR ''2''"
    by auto
  let ?asm = "sample_request ''doll_assembly''
      [sample_image ''c.png'' ''asm-cloth'', sample_image ''h.png'' ''asm-hair'',
       sample_image ''b.png'' ''asm-body'']"
  let ?asm' = "sample_request ''doll_assembly''
        [sample_image ''h.png'' ''asm-hair'', sample_image ''b.png'' ''asm-body'',
         sample_image ''c.png'' ''asm-cloth'']"
  have v2: "validateRequest ?asm = (None, ?asm')"
    by (simp add: validateRequest_def with_category_def sample_request_def sample_image_def
        sample_settings_def HAIRSTYLE_EXTRACTION_def DOLL_ASSEMBLY_def DOLL_REPLACEMENT_def
        Let_def)
  have st2: "stage ?asm = ''doll_assembly''"
    and im2: "input_images ?asm' =
             [sample_image ''h.png'' ''asm-hair'', sample_image ''b.png'' ''asm-body'',
              sample_image ''c.png'' ''asm-cloth'']"
    by (simp_all add: sample_request_def)
  from persisted_type_is_stage_label [OF v2, of no_unicode "''task-2''" "''10:01''"
      "engine_with_limit 2"]
  obtain s2 r2 where sub2: "submitTask no_unicode ''task-2'' ''10:01'' ?asm (engine_with_limit 2) =
      (Inr r2, s2)"
    and rec2: "r2 = \<lparr>task_id = ''task-2'', task_type = task_type r2, task_status = Pending,
               task_model = req_model ?asm, inputImages = input_images ?asm',
               outputImages = [], startTime = ''10:01'', endTime = None, duration = None,
               geekai_task_id = None, error_message = None, logs = Some []\<rparr>"
    and lab2: "stage ?asm = ''doll_assembly'' \<longrightarrow> task_type r2 = ''DOLL ASSEMBLY''"
    by blast
  from rec2 have "inputImages r2 = input_images ?asm'"
    by (cases r2) simp
  with sub2 lab2 st2 im2
  have second: "\<exists>s' r. submitTask no_unicode ''task-2'' ''10:01'' ?asm (engine_with_limit 2) =
             (Inr r, s') \<and>
           task_type r = ''DOLL ASSEMBLY'' \<and>
           inputImages r =
             [sample_image ''h.png'' ''asm-hair'', sample_image ''b.png'' ''asm-body'',
              sample_image ''c.png'' ''asm-cloth'']"
    by auto
  let ?cafe = "sample_request (''caf'' @ [CHR 0xE9] @ ''_doll'') []"
  have v3: "validateRequest ?cafe = (None, ?cafe)"
    by (simp add: validateRequest_def sample_request_def sample_settings_def
        HAIRSTYLE_EXTRACTION_def DOLL_ASSEMBLY_def DOLL_REPLACEMENT_def)
  have st3: "stage ?cafe = ''caf'' @ [CHR 0xE9] @ ''_doll''"
    by (simp add: sample_request_def)
  have a3: "\<not> is_ascii (stage ?cafe)"
    unfolding st3 by code_simp
  have u3: "latin1_upper (map (\<lambda>c. if c = CHR ''_'' then CHR '' '' else c)
               (''caf'' @ [CHR 0xE9] @ ''_doll'')) = ''CAF'' @ [CHR 0xC9] @ '' DOLL''"
    by code_simp
  from persisted_type_is_stage_label [OF v3, of latin1_upper "''task-3''" "''10:02''"
      "engine_with_limit 2"]
  obtain s3 r3 where sub3: "submitTask latin1_upper ''task-3'' ''10:02'' ?cafe (engine_with_limit 2) =
      (Inr r3, s3)"
    and lab3: "\<not> is_ascii (stage ?cafe) \<longrightarrow>
             task_type r3 =
               latin1_upper (map (\<lambda>c. if c = CHR ''_'' then CHR '' '' else c) (stage ?cafe))"
    by blast
  from lab3 a3 have "task_type r3 =
      latin1_upper (map (\<lambda>c. if c = CHR ''_'' then CHR '' '' else c) (stage ?cafe))"
    by blast
  then have "task_type r3 = ''CAF'' @ [CHR 0xC9] @ '' DOLL''"
    by (simp only: st3 u3)
  with sub3
  have third: "\<exists>s' r. submitTask latin1_upper ''task-3'' ''10:02'' ?cafe (engine_with_limit 2) =
             (Inr r, s') \<and> task_type r = ''CAF'' @ [CHR 0xC9] @ '' DOLL''"
    by blast
  from v a first v2 second v3 a3 third show ?thesis
    by blast
qed

section \<open>Admission\<close>

lemma processQueue_cases:
  "processQueue s =
     (if queue s \<noteq> [] \<and> activeCount s < maxConcurrency s
      then s\<lparr>queue := tl (queue s), activeCount := activeCount s + 1,
             running := running s @ [fst (hd (queue s))]\<rparr>
      else s)"
  by (auto simp: processQueue_def split: list.splits)

lemma processQueue_counter_exact: "counter_exact s \<Longrightarrow> counter_exact (processQueue s)"
  by (simp add: processQueue_cases counter_exact_def)

lemma processQueue_within_limit:
  "activeCount s \<le> maxConcurrency s \<Longrightarrow> activeCount (processQueue s) \<le> maxConcurrency (processQueue s)"
  by (simp add: processQueue_cases)

lemma processQueue_saturates:
  "queue s = [] \<or> length (queue s) = 1 \<or> maxConcurrency s \<le> activeCount s + 1 \<Longrightarrow>
   saturated (processQueue s)"
  by (cases "queue s") (auto simp: processQueue_cases saturated_def)

lemma submitTask_state:
  "snd (submitTask unicode taskId now req0 s) = s \<or>
   (\<exists>task req. snd (submitTask unicode taskId now req0 s) =
      processQueue (s\<lparr>database := addTask task (database s), queue := queue s @ [(taskId, req)]\<rparr>))"
  by (cases "validateRequest req0")
     (auto simp: submitTask_def Let_def split: option.splits)

lemma length_remove1_int:
  assumes "x \<in> set xs"
  shows "int (length (remove1 x xs)) = int (length xs) - 1"
proof -
  from assms have "0 < length xs" by (rule length_pos_if_in_set)
  then have "int (length xs - 1) = int (length xs) - 1" by linarith
  with assms show ?thesis by (simp add: length_remove1)
qed

lemma step_counter_exact: "counter_exact s \<Longrightarrow> counter_exact (step e s)"
proof (cases e)
  case (Submit unicode taskId now req)
  assume ce: "counter_exact s"
  from submitTask_state [of unicode taskId now req s] show ?thesis
  proof (elim disjE exE)
    assume "snd (submitTask unicode taskId now req s) = s"
    with ce Submit show ?thesis by simp
  next
    fix task req'
    let ?s2 = "s\<lparr>database := addTask task (database s), queue := queue s @ [(taskId, req')]\<rparr>"
    assume eq: "snd (submitTask unicode taskId now req s) = processQueue ?s2"
    from ce have "counter_exact ?s2" by (simp add: counter_exact_def)
    then have "counter_exact (processQueue ?s2)" by (rule processQueue_counter_exact)
    with eq Submit show ?thesis by simp
  qed
next
  case (Settled taskId)
  assume ce: "counter_exact s"
  show ?thesis
  proof (cases "taskId \<in> set (running s)")
    case True
    let ?s1 = "s\<lparr>activeCount := activeCount s - 1, running := remove1 taskId (running s)\<rparr>"
    from ce True have "counter_exact ?s1"
      by (simp add: counter_exact_def length_remove1_int)
    then have "counter_exact (processQueue ?s1)" by (rule processQueue_counter_exact)
    with True Settled show ?thesis by (simp add: on_settled_def)
  next
    case False
    with ce Settled show ?thesis by simp
  qed
next
  case (UpdateConcurrency limit)
  assume ce: "counter_exact s"
  then have "counter_exact (s\<lparr>maxConcurrency := limit\<rparr>)" by (simp add: counter_exact_def)
  then have "counter_exact (processQueue (s\<lparr>maxConcurrency := limit\<rparr>))"
    by (rule processQueue_counter_exact)
  with UpdateConcurrency show ?thesis by (simp add: updateConcurrency_def)
qed

lemma step_within_limit:
  assumes "counter_exact s" and "activeCount s \<le> maxConcurrency s"
    and "case e of UpdateConcurrency limit \<Rightarrow> int (length (running s)) \<le> limit | _ \<Rightarrow> True"
  shows "activeCount (step e s) \<le> maxConcurrency (step e s)"
proof (cases e)
  case (Submit unicode taskId now req)
  from submitTask_state [of unicode taskId now req s] show ?thesis
  proof (elim disjE exE)
    assume "snd (submitTask unicode taskId now req s) = s"
    with assms(2) Submit show ?thesis by simp
  next
    fix task req'
    let ?s2 = "s\<lparr>database := addTask task (database s), queue := queue s @ [(taskId, req')]\<rparr>"
    assume eq: "snd (submitTask unicode taskId now req s) = processQueue ?s2"
    from assms(2) have "activeCount ?s2 \<le> maxConcurrency ?s2" by simp
    then have "activeCount (processQueue ?s2) \<le> maxConcurrency (processQueue ?s2)"
      by (rule processQueue_within_limit)
    with eq Submit show ?thesis by simp
  qed
next
  case (Settled taskId)
  let ?s1 = "s\<lparr>activeCount := activeCount s - 1, running := remove1 taskId (running s)\<rparr>"
  from assms(2) have "activeCount ?s1 \<le> maxConcurrency ?s1" by simp
  then have "activeCount (processQueue ?s1) \<le> maxConcurrency (processQueue ?s1)"
    by (rule processQueue_within_limit)
  with assms(2) Settled show ?thesis by (simp add: on_settled_def)
next
  case (UpdateConcurrency limit)
  let ?s1 = "s\<lparr>maxConcurrency := limit\<rparr>"
  from assms(1,3) UpdateConcurrency have "activeCount ?s1 \<le> maxConcurrency ?s1"
    by (simp add: counter_exact_def)
  then have "activeCount (processQueue ?s1) \<le> maxConcurrency (processQueue ?s1)"
    by (rule processQueue_within_limit)
  with UpdateConcurrency show ?thesis by (simp add: updateConcurrency_def)
qed

lemma run_within_limit:
  "counter_exact s \<Longrightarrow> activeCount s \<le> maxConcurrency s \<Longrightarrow> never_lowered_below_running evs s \<Longrightarrow>
   counter_exact (run evs s) \<and> activeCount (run evs s) \<le> maxConcurrency (run evs s)"
proof (induction evs arbitrary: s)
  case Nil
  then show ?case by simp
next
  case (Cons e evs)
  from Cons.prems have "counter_exact (step e s)"
    by (simp add: step_counter_exact)
  moreover from Cons.prems have "activeCount (step e s) \<le> maxConcurrency (step e s)"
    by (intro step_within_limit) simp_all
  moreover from Cons.prems have "never_lowered_below_running evs (step e s)"
    by simp
  ultimately show ?case
    using Cons.IH [of "step e s"] by simp
qed

lemma step_decrement_only_on_completion:
  assumes "activeCount (step e s) < activeCount s"
  shows "\<exists>taskId. e = Settled taskId \<and> taskId \<in> set (running s)"
proof (cases e)
  case (Submit unicode taskId now req)
  then show ?thesis
    using submitTask_state [of unicode taskId now req s] assms
    by (auto simp: processQueue_cases split: if_splits)
next
  case (Settled taskId)
  then show ?thesis using assms by (auto split: if_splits)
next
  case (UpdateConcurrency limit)
  then show ?thesis
    using assms by (auto simp: updateConcurrency_def processQueue_cases split: if_splits)
qed

lemma submit_when_full:
  assumes "maxConcurrency s \<le> activeCount s"
  shows "running (step (Submit unicode taskId now req) s) = running s"
  using submitTask_state [of unicode taskId now req s] assms
  by (auto simp: processQueue_cases)

lemma settled_starts_head:
  assumes "taskId \<in> set (running s)" and "queue s \<noteq> []" and "activeCount s = maxConcurrency s"
  shows "running (step (Settled taskId) s) = remove1 taskId (running s) @ [fst (hd (queue s))]"
  using assms by (simp add: on_settled_def processQueue_cases)

lemma step_saturated_submit:
  assumes "saturated s"
  shows "saturated (step (Submit unicode taskId now req) s)"
proof -
  from submitTask_state [of unicode taskId now req s] show ?thesis
  proof (elim disjE exE)
    assume "snd (submitTask unicode taskId now req s) = s"
    with assms show ?thesis by simp
  next
    fix task req'
    let ?s2 = "s\<lparr>database := addTask task (database s), queue := queue s @ [(taskId, req')]\<rparr>"
    assume eq: "snd (submitTask unicode taskId now req s) = processQueue ?s2"
    from assms have "queue ?s2 = [] \<or> length (queue ?s2) = 1 \<or> maxConcurrency ?s2 \<le> activeCount ?s2 + 1"
      by (auto simp: saturated_def)
    then have "saturated (processQueue ?s2)" by (rule processQueue_saturates)
    with eq show ?thesis by simp
  qed
qed

lemma step_saturated_settled:
  assumes "saturated s"
  shows "saturated (step (Settled taskId) s)"
proof (cases "taskId \<in> set (running s)")
  case True
  let ?s1 = "s\<lparr>activeCount := activeCount s - 1, running := remove1 taskId (running s)\<rparr>"
  from assms have "queue ?s1 = [] \<or> length (queue ?s1) = 1 \<or> maxConcurrency ?s1 \<le> activeCount ?s1 + 1"
    by (auto simp: saturated_def)
  then have "saturated (processQueue ?s1)" by (rule processQueue_saturates)
  with True show ?thesis by (simp add: on_settled_def)
next
  case False
  with assms show ?thesis by simp
qed

lemma step_starts_at_most_one: "length (running (step e s)) \<le> length (running s) + 1"
proof (cases e)
  case (Submit unicode taskId now req)
  then show ?thesis
    using submitTask_state [of unicode taskId now req s] by (auto simp: processQueue_cases)
next
  case (Settled taskId)
  then show ?thesis by (auto simp: on_settled_def processQueue_cases length_remove1)
next
  case (UpdateConcurrency limit)
  then show ?thesis by (auto simp: updateConcurrency_def processQueue_cases)
qed



lemma run_append: "run (es @ fs) s = run fs (run es s)"
  by (induction es arbitrary: s) simp_all

lemma valid_request_accepted: "validateRequest valid_request = (None, valid_request)"
  by (simp add: valid_request_def validateRequest_def with_category_def sample_request_def
      sample_image_def sample_settings_def HAIRSTYLE_EXTRACTION_def DOLL_ASSEMBLY_def
      DOLL_REPLACEMENT_def Let_def)

lemma three_submissions_limit_1:
  "queue (run three_submissions (engine_with_limit 1)) =
     [(''task-B'', valid_request), (''task-C'', valid_request)] \<and>
   running (run three_submissions (engine_with_limit 1)) = [''task-A''] \<and>
   activeCount (run three_submissions (engine_with_limit 1)) = 1 \<and>
   maxConcurrency (run three_submissions (engine_with_limit 1)) = 1"
  by (simp add: three_submissions_def engine_with_limit_def init_def new_engine_def
      submitTask_def valid_request_accepted processQueue_def Let_def)

text \<open>
  C2, as stated, fails. With a limit of 1, three submissions leave one task running and
  two queued. Raising the limit to 3 runs \<open>processQueue\<close> once: the second task starts, and
  the third stays in the queue although the counter (2) is below the limit (3).
\<close>

theorem raising_limit_starts_one_task_only:
  "map fst (queue (run (three_submissions @ [UpdateConcurrency 3]) (engine_with_limit 1))) =
     [''task-C''] \<and>
   running (run (three_submissions @ [UpdateConcurrency 3]) (engine_with_limit 1)) =
     [''task-A'', ''task-B''] \<and>
   activeCount (run (three_submissions @ [UpdateConcurrency 3]) (engine_with_limit 1)) = 2 \<and>
   maxConcurrency (run (three_submissions @ [UpdateConcurrency 3]) (engine_with_limit 1)) = 3 \<and>
   \<not> saturated (run (three_submissions @ [UpdateConcurrency 3]) (engine_with_limit 1))"
  using three_submissions_limit_1
  by (simp add: run_append updateConcurrency_def processQueue_def saturated_def)

text \<open>
  C2, amended. Every admission trigger runs \<open>processQueue\<close> once, and one run starts at
  most one task: when the queue is non-empty and the counter is below the limit, the head
  of the queue is dequeued and started and the counter goes up by one; otherwise nothing
  changes. The state after each trigger is therefore determined:
  a change of the limit sets the limit and starts the head of the queue when the counter
  is below the new limit, and nothing else;
  the completion of a running task removes it from the running tasks and, when a task is
  queued and the counter less one is below the limit, dequeues the head and starts it (the
  counter is then what it was), and otherwise takes one off the counter;
  an accepted submission stores the record, puts the request at the back of the queue and,
  when the counter is below the limit, dequeues the head and starts it.
  No event starts more than one task. One start is enough on submission and on
  completion: from a state in which no queued task is waiting below the limit, either
  event leads to such a state again.
\<close>

theorem admission_starts_one_task_per_trigger:
  "processQueue s =
     (if queue s \<noteq> [] \<and> activeCount s < maxConcurrency s
      then s\<lparr>queue := tl (queue s), activeCount := activeCount s + 1,
             running := running s @ [fst (hd (queue s))]\<rparr>
      else s) \<and>
   step (UpdateConcurrency limit) s =
     (if queue s \<noteq> [] \<and> activeCount s < limit
      then s\<lparr>maxConcurrency := limit, queue := tl (queue s),
             activeCount := activeCount s + 1,
             running := running s @ [fst (hd (queue s))]\<rparr>
      else s\<lparr>maxConcurrency := limit\<rparr>) \<and>
   (taskId \<in> set (running s) \<longrightarrow>
      step (Settled taskId) s =
        (if queue s \<noteq> [] \<and> activeCount s - 1 < maxConcurrency s
         then s\<lparr>queue := tl (queue s),
                running := remove1 taskId (running s) @ [fst (hd (queue s))]\<rparr>
         else s\<lparr>activeCount := activeCount s - 1,
                running := remove1 taskId (running s)\<rparr>)) \<and>
   (validateRequest req = (None, req') \<longrightarrow>
      step (Submit unicode newId now req) s =
        (if activeCount s < maxConcurrency s
         then s\<lparr>database := addTask (new_task unicode newId now req') (database s),
                queue := tl (queue s @ [(newId, req')]),
                activeCount := activeCount s + 1,
                running := running s @ [fst (hd (queue s @ [(newId, req')]))]\<rparr>
         else s\<lparr>database := addTask (new_task unicode newId now req') (database s),
                queue := queue s @ [(newId, req')]\<rparr>)) \<and>
   length (running (step e s)) \<le> length (running s) + 1 \<and>
   (saturated s \<longrightarrow>
      saturated (step (Submit unicode newId now req) s) \<and> saturated (step (Settled taskId) s))"
proof (intro conjI impI)
  show "processQueue s =
     (if queue s \<noteq> [] \<and> activeCount s < maxConcurrency s
      then s\<lparr>queue := tl (queue s), activeCount := activeCount s + 1,
             running := running s @ [fst (hd (queue s))]\<rparr>
      else s)"
    by (rule processQueue_cases)
next
  show "step (UpdateConcurrency limit) s =
     (if queue s \<noteq> [] \<and> activeCount s < limit
      then s\<lparr>maxConcurrency := limit, queue := tl (queue s),
             activeCount := activeCount s + 1,
             running := running s @ [fst (hd (queue s))]\<rparr>
      else s\<lparr>maxConcurrency := limit\<rparr>)"
    by (simp add: updateConcurrency_def processQueue_cases)
next
  assume "taskId \<in> set (running s)"
  then show "step (Settled taskId) s =
        (if queue s \<noteq> [] \<and> activeCount s - 1 < maxConcurrency s
         then s\<lparr>queue := tl (queue s),
                running := remove1 taskId (running s) @ [fst (hd (queue s))]\<rparr>
         else s\<lparr>activeCount := activeCount s - 1,
                running := remove1 taskId (running s)\<rparr>)"
    by (simp add: on_settled_def processQueue_cases)
next
  assume "validateRequest req = (None, req')"
  then have "submitTask unicode newId now req s =
      (Inr (new_task unicode newId now req'),
       processQueue (s\<lparr>database := addTask (new_task unicode newId now req') (database s),
                        queue := queue s @ [(newId, req')]\<rparr>))"
    by (rule submitTask_accepted)
  then show "step (Submit unicode newId now req) s =
        (if activeCount s < maxConcurrency s
         then s\<lparr>database := addTask (new_task unicode newId now req') (database s),
                queue := tl (queue s @ [(newId, req')]),
                activeCount := activeCount s + 1,
                running := running s @ [fst (hd (queue s @ [(newId, req')]))]\<rparr>
         else s\<lparr>database := addTask (new_task unicode newId now req') (database s),
                queue := queue s @ [(newId, req')]\<rparr>)"
    by (simp add: processQueue_cases)
next
  show "length (running (step e s)) \<le> length (running s) + 1"
    by (rule step_starts_at_most_one)
next
  assume "saturated s"
  then show "saturated (step (Submit unicode newId now req) s)"
    by (rule step_saturated_submit)
next
  assume "saturated s"
  then show "saturated (step (Settled taskId) s)"
    by (rule step_saturated_settled)
qed

theorem admission_starts_one_task_per_trigger_witness:
  "saturated (run three_submissions (engine_with_limit 1)) \<and>
   ''task-A'' \<in> set (running (run three_submissions (engine_with_limit 1))) \<and>
   validateRequest valid_request = (None, valid_request) \<and>
   saturated (step (Settled ''task-A'') (run three_submissions (engine_with_limit 1))) \<and>
   running (step (Settled ''task-A'') (run three_submissions (engine_with_limit 1))) =
     [''task-B''] \<and>
   map fst (queue (step (Settled ''task-A'') (run three_submissions (engine_with_limit 1)))) =
     [''task-C''] \<and>
   map fst (queue (step (Submit no_unicode ''task-D'' ''10:03'' valid_request)
                     (run three_submissions (engine_with_limit 1)))) =
     [''task-B'', ''task-C'', ''task-D''] \<and>
   running (step (UpdateConcurrency 3) (run three_submissions (engine_with_limit 1))) =
     [''task-A'', ''task-B''] \<and>
   ''task-A'' \<in> set (running (run (three_submissions @ [UpdateConcurrency 3])
                                (engine_with_limit 1))) \<and>
   running (step (Settled ''task-A'')
              (run (three_submissions @ [UpdateConcurrency 3]) (engine_with_limit 1))) =
     [''task-B'', ''task-C''] \<and>
   queue (step (Settled ''task-A'')
            (run (three_submissions @ [UpdateConcurrency 3]) (engine_with_limit 1))) = [] \<and>
   activeCount (step (Settled ''task-A'')
            (run (three_submissions @ [UpdateConcurrency 3]) (engine_with_limit 1))) = 2"
proof -
  let ?s = "run three_submissions (engine_with_limit 1)"
  let ?t = "run (three_submissions @ [UpdateConcurrency 3]) (engine_with_limit 1)"
  note s = three_submissions_limit_1
  have t: "queue ?t = [(''task-C'', valid_request)]" "running ?t = [''task-A'', ''task-B'']"
    "activeCount ?t = 2" "maxConcurrency ?t = 3"
    using s by (simp_all add: run_append updateConcurrency_def processQueue_def)
  have sat: "saturated ?s"
    using s by (simp add: saturated_def)
  have "step (UpdateConcurrency 3) ?s = ?t"
    by (simp add: run_append)
  with t have u: "running (step (UpdateConcurrency 3) ?s) = [''task-A'', ''task-B'']"
    by simp
  from admission_starts_one_task_per_trigger
      [where s = ?s and taskId = "''task-A''" and req = valid_request and req' = valid_request
         and unicode = no_unicode and newId = "''task-D''" and now = "''10:03''"]
    valid_request_accepted sat s
  have a: "saturated (step (Settled ''task-A'') ?s)"
    and b: "running (step (Settled ''task-A'') ?s) = [''task-B'']"
    and c: "map fst (queue (step (Settled ''task-A'') ?s)) = [''task-C'']"
    and d: "map fst (queue (step (Submit no_unicode ''task-D'' ''10:03'' valid_request) ?s)) =
              [''task-B'', ''task-C'', ''task-D'']"
    by (simp_all add: saturated_def)
  from admission_starts_one_task_per_trigger [where s = ?t and taskId = "''task-A''"] t
  have e: "running (step (Settled ''task-A'') ?t) = [''task-B'', ''task-C'']"
    and f: "queue (step (Settled ''task-A'') ?t) = []"
    and g: "activeCount (step (Settled ''task-A'') ?t) = 2"
    by simp_all
  from sat s t valid_request_accepted a b c d u e f g show ?thesis
    by simp
qed

text \<open>
  C6, as stated, fails when the limit is lowered at run time: running pipelines are not
  preempted. With a limit of 3, three submissions start three tasks; lowering the limit
  to 1 leaves the three executing.
\<close>

theorem lowering_limit_leaves_more_running:
  "running (run (three_submissions @ [UpdateConcurrency 1]) (engine_with_limit 3)) =
     [''task-A'', ''task-B'', ''task-C''] \<and>
   maxConcurrency (run (three_submissions @ [UpdateConcurrency 1]) (engine_with_limit 3)) = 1 \<and>
   maxConcurrency (run (three_submissions @ [UpdateConcurrency 1]) (engine_with_limit 3)) <
     int (length (running (run (three_submissions @ [UpdateConcurrency 1]) (engine_with_limit 3))))"
  by (simp add: three_submissions_def engine_with_limit_def init_def new_engine_def
      submitTask_def valid_request_accepted processQueue_def updateConcurrency_def Let_def)

text \<open>
  C6, amended. Start from a state in which the counter equals the number of executing
  pipelines and is within the limit (a fresh engine is one), and let any events happen
  such that no change of the limit sets it below the number of tasks then executing.
  Then the number of executing tasks never exceeds the limit, and the counter still
  counts them. In any state: the counter goes down only at the completion of a running
  pipeline; when the counter has reached the limit a submission starts nothing; and when
  the counter is at the limit and a task is queued, the completion of a running task
  starts the head of the queue.
\<close>

theorem running_tasks_within_limit:
  assumes "counter_exact s" and "activeCount s \<le> maxConcurrency s"
    and "never_lowered_below_running evs s"
  shows "int (length (running (run evs s))) \<le> maxConcurrency (run evs s) \<and>
         counter_exact (run evs s) \<and>
         (\<forall>e s'. activeCount (step e s') < activeCount s' \<longrightarrow>
                 (\<exists>taskId. e = Settled taskId \<and> taskId \<in> set (running s'))) \<and>
         (\<forall>unicode taskId now req s'. maxConcurrency s' \<le> activeCount s' \<longrightarrow>
                 running (step (Submit unicode taskId now req) s') = running s') \<and>
         (\<forall>taskId s'. taskId \<in> set (running s') \<and> queue s' \<noteq> [] \<and>
                      activeCount s' = maxConcurrency s' \<longrightarrow>
                 running (step (Settled taskId) s') =
                   remove1 taskId (running s') @ [fst (hd (queue s'))])"
proof -
  from run_within_limit [OF assms]
  have "int (length (running (run evs s))) \<le> maxConcurrency (run evs s)"
    and "counter_exact (run evs s)"
    by (simp_all add: counter_exact_def)
  then show ?thesis
    using step_decrement_only_on_completion submit_when_full settled_starts_head
    by blast
qed

theorem running_tasks_within_limit_witness:
  "counter_exact (engine_with_limit 2) \<and>
   activeCount (engine_with_limit 2) \<le> maxConcurrency (engine_with_limit 2) \<and>
   never_lowered_below_running (three_submissions @ [Settled ''task-A'']) (engine_with_limit 2) \<and>
   running (run three_submissions (engine_with_limit 2)) = [''task-A'', ''task-B''] \<and>
   running (run (three_submissions @ [Settled ''task-A'']) (engine_with_limit 2)) =
     [''task-B'', ''task-C''] \<and>
   int (length (running (run (three_submissions @ [Settled ''task-A'']) (engine_with_limit 2)))) \<le>
     maxConcurrency (run (three_submissions @ [Settled ''task-A'']) (engine_with_limit 2))"
proof -
  have a: "counter_exact (engine_with_limit 2)"
    and b: "activeCount (engine_with_limit 2) \<le> maxConcurrency (engine_with_limit 2)"
    by (simp_all add: counter_exact_def engine_with_limit_def init_def new_engine_def)
  have c: "never_lowered_below_running (three_submissions @ [Settled ''task-A''])
             (engine_with_limit 2)"
    by (simp add: three_submissions_def)
  have d: "running (run three_submissions (engine_with_limit 2)) = [''task-A'', ''task-B'']"
    and e: "running (run (three_submissions @ [Settled ''task-A'']) (engine_with_limit 2)) =
              [''task-B'', ''task-C'']"
    by (simp_all add: three_submissions_def engine_with_limit_def init_def new_engine_def
        submitTask_def valid_request_accepted processQueue_def on_settled_def Let_def)
  from running_tasks_within_limit [OF a b c] a b c d e show ?thesis
    by blast
qed

section \<open>Polling\<close>

lemma poll_step_failed:
  assumes "get (Suc pollCount) = GetResolved ''failed'' urls err"
  shows "pollGeekAIResult_from get taskId apiKey dbTaskId pollCount w =
         pollGeekAIResult_from get taskId apiKey dbTaskId (Suc pollCount)
           (addTaskLog dbTaskId (''Remote Task Failed: '' @ or_else err ''Task failed remotely'')
             (log_progress ''failed'' (Suc pollCount) dbTaskId
                (perform (HttpGet (''https://geekai.co/api/v1/images/'' @ taskId) apiKey)
                   (perform (Sleep 3000) w))))"
  using assms
  by (subst pollGeekAIResult_from.simps)
     (simp add: poll_try_def poll_catch_def Let_def)

lemma poll_step_succeed:
  assumes "get (Suc pollCount) = GetResolved ''succeed'' (u # us) err"
  shows "pollGeekAIResult_from get taskId apiKey dbTaskId pollCount w =
         Some (Inr u,
           log_progress ''succeed'' (Suc pollCount) dbTaskId
             (perform (HttpGet (''https://geekai.co/api/v1/images/'' @ taskId) apiKey)
                (perform (Sleep 3000) w)))"
  using assms
  by (subst pollGeekAIResult_from.simps)
     (simp add: poll_try_def poll_catch_def Let_def)

lemma poll_settles_not_all_failed:
  assumes "pollGeekAIResult_from get taskId apiKey dbTaskId pollCount w = Some y"
  shows "\<exists>n. \<not> reports_failed (get n)"
proof (rule pollGeekAIResult_from.raw_induct
    [where P = "\<lambda>g t a d p v r. \<exists>n. \<not> reports_failed (g n)"])
  show "pollGeekAIResult_from get taskId apiKey dbTaskId pollCount w = Some y"
    by (rule assms)
next
  fix f :: "(nat \<Rightarrow> get_result) \<Rightarrow> string \<Rightarrow> string \<Rightarrow> string \<Rightarrow> nat \<Rightarrow> world \<Rightarrow>
             ((string + string) \<times> world) option"
  fix g t a d p v r
  assume IH: "\<And>g t a d p v r. f g t a d p v = Some r \<Longrightarrow> \<exists>n. \<not> reports_failed (g n)"
  assume body:
    "(let w1 = perform (Sleep 3000) v; n = p + 1;
          w2 = perform (HttpGet (''https://geekai.co/api/v1/images/'' @ t) a) w1
      in case poll_try (g n) n d w2 of
           (Returned u, w3) \<Rightarrow> Some (Inr u, w3)
         | (Thrown e, w3) \<Rightarrow>
             (case poll_catch e d w3 of
                (None, w4) \<Rightarrow> f g t a d n w4
              | (Some errMsg, w4) \<Rightarrow> Some (Inl errMsg, w4))
         | (Fell_through, w3) \<Rightarrow> f g t a d n w3) = Some r"
  show "\<exists>n. \<not> reports_failed (g n)"
  proof (cases "reports_failed (g (p + 1))")
    case True
    then obtain urls err where "g (p + 1) = GetResolved ''failed'' urls err"
      by (cases "g (p + 1)") auto
    with body obtain w' where "f g t a d (p + 1) w' = Some r"
      by (simp add: poll_try_def poll_catch_def Let_def)
    then show ?thesis by (rule IH)
  next
    case False
    then show ?thesis by blast
  qed
qed

lemma poll_never_settles_when_always_failed:
  assumes "\<And>n. reports_failed (get n)"
  shows "pollGeekAIResult_from get taskId apiKey dbTaskId pollCount w = None"
proof (cases "pollGeekAIResult_from get taskId apiKey dbTaskId pollCount w")
  case None
  then show ?thesis .
next
  case (Some y)
  from poll_settles_not_all_failed [OF this] assms show ?thesis by blast
qed

text \<open>
  C1 fails on the code for a remote failure. \<open>throw new Error(failureMsg)\<close> stands inside
  the \<open>try\<close> block, so the \<open>catch\<close> block of the same iteration receives it; the error has
  no response, is taken for a network glitch, and the loop goes on. When the remote
  reports the failure at every query the call never settles; when a later query reports
  success the call returns that url, after one more query.
\<close>

theorem poll_goes_on_after_remote_failure:
  "pollGeekAIResult always_failed ''remote-7'' ''sk-1'' ''task-1'' sample_world = None \<and>
   pollGeekAIResult failed_then_succeed ''remote-7'' ''sk-1'' ''task-1'' sample_world =
     Some (Inr ''https://cdn.example/result.png'',
           sample_world\<lparr>effects :=
             [Sleep 3000,
              HttpGet ''https://geekai.co/api/v1/images/remote-7'' ''sk-1'',
              Log ''task-1'' ''Remote Task Failed: quota exceeded'',
              Sleep 3000,
              HttpGet ''https://geekai.co/api/v1/images/remote-7'' ''sk-1'']\<rparr>)"
proof
  show "pollGeekAIResult always_failed ''remote-7'' ''sk-1'' ''task-1'' sample_world = None"
    unfolding pollGeekAIResult_def
    by (rule poll_never_settles_when_always_failed) (simp add: always_failed_def)
next
  have 1: "failed_then_succeed (Suc 0) = GetResolved ''failed'' [] (Some ''quota exceeded'')"
    by (simp add: failed_then_succeed_def)
  have 2: "failed_then_succeed (Suc (Suc 0)) =
             GetResolved ''succeed'' [''https://cdn.example/result.png''] None"
    by (simp add: failed_then_succeed_def)
  show "pollGeekAIResult failed_then_succeed ''remote-7'' ''sk-1'' ''task-1'' sample_world =
     Some (Inr ''https://cdn.example/result.png'',
           sample_world\<lparr>effects :=
             [Sleep 3000,
              HttpGet ''https://geekai.co/api/v1/images/remote-7'' ''sk-1'',
              Log ''task-1'' ''Remote Task Failed: quota exceeded'',
              Sleep 3000,
              HttpGet ''https://geekai.co/api/v1/images/remote-7'' ''sk-1'']\<rparr>)"
    unfolding pollGeekAIResult_def
    by (simp add: poll_step_failed [of failed_then_succeed 0, OF 1]
        poll_step_succeed [of failed_then_succeed "Suc 0", OF 2] log_progress_def perform_def
        addTaskLog_def or_else_def sample_world_def Let_def)
qed

section \<open>Upload of the inputs\<close>

lemma upload_attempts_unfold:
  "upload_attempts put st taskId img 0 w =
     (case put 0 of
        None \<Rightarrow> (Inr [oss_link st img], add_effects (attempt_trace st taskId img 0) w)
      | Some m0 \<Rightarrow>
          (case put 1 of
             None \<Rightarrow>
               (Inr [oss_link st img],
                add_effects (attempt_trace st taskId img 0 @ failure_trace taskId 0 m0 @
                   [Sleep 3000] @ attempt_trace st taskId img 1) w)
           | Some m1 \<Rightarrow>
               (case put 2 of
                  None \<Rightarrow>
                    (Inr [oss_link st img],
                     add_effects (attempt_trace st taskId img 0 @ failure_trace taskId 0 m0 @
                        [Sleep 3000] @ attempt_trace st taskId img 1 @ failure_trace taskId 1 m1 @
                        [Sleep 3000] @ attempt_trace st taskId img 2) w)
                | Some m2 \<Rightarrow>
                    (Inl (upload_failed img m2),
                     add_effects (attempt_trace st taskId img 0 @ failure_trace taskId 0 m0 @
                        [Sleep 3000] @ attempt_trace st taskId img 1 @ failure_trace taskId 1 m1 @
                        [Sleep 3000] @ attempt_trace st taskId img 2 @ failure_trace taskId 2 m2) w))))"
proof -
  have two: "Suc (Suc 0) = 2" by simp
  show ?thesis
    by (simp add: upload_attempts.simps [of _ _ _ _ 0] upload_attempts.simps [of _ _ _ _ "Suc 0"]
        upload_attempts.simps [of _ _ _ _ 2] two
        Let_def add_effects_def attempt_trace_def failure_trace_def upload_failed_def
        addTaskLog_def perform_def split: option.splits)
qed


lemma less_3_cases: "(i::nat) < 3 \<longleftrightarrow> i = 0 \<or> i = 1 \<or> i = 2"
  by arith

lemma ex_less_3: "(\<exists>i<3. P i) \<longleftrightarrow> P (0::nat) \<or> P 1 \<or> P 2"
  unfolding less_3_cases by blast


lemma upload_attempts_some_ok:
  assumes "\<exists>i<3. put i = None"
  shows "fst (upload_attempts put st taskId img 0 w) = Inr [oss_link st img]"
  using assms
  by (auto simp: ex_less_3 upload_attempts_unfold split: option.splits)


lemma upt_small: "[0..<1] = [0]" "[0..<2] = [0, 1]" "[0..<3] = [0, 1, 2]"
  by code_simp+

lemma add_effects_append: "add_effects b (add_effects a w) = add_effects (a @ b) w"
  by (simp add: add_effects_def)






lemma upload_loop_all_ok:
  assumes "\<forall>j<length imgs. \<exists>i<3. put (k + j) i = None"
  shows "fst (upload_loop put st taskId imgs k links w) = Inr (links @ map (oss_link st) imgs)"
  using assms
proof (induction imgs arbitrary: k links w)
  case Nil
  then show ?case by simp
next
  case (Cons img imgs)
  from Cons.prems have "\<exists>i<3. put k i = None" by force
  then have ok: "fst (upload_attempts (put k) st taskId img 0 w) = Inr [oss_link st img]"
    by (rule upload_attempts_some_ok)
  from Cons.prems have rest: "\<forall>j<length imgs. \<exists>i<3. put (k + 1 + j) i = None"
    by force
  obtain r w' where u: "upload_attempts (put k) st taskId img 0 w = (r, w')"
    by (cases "upload_attempts (put k) st taskId img 0 w")
  with ok have r: "r = Inr [oss_link st img]" by simp
  show ?case
    using Cons.IH [OF rest, of "links @ [oss_link st img]" w'] u r by simp
qed









section \<open>Submission to the generation service\<close>

lemma post_attempt_accepted:
  assumes "accepted r = Some rid"
  shows "post_try r taskId (perform (HttpPost pl apiKey) w) =
           (Inr rid, add_effects (post_trace r pl apiKey taskId i) w)"
proof (cases r)
  case (PostRejected e)
  with assms show ?thesis by simp
next
  case (PostResolved status data)
  show ?thesis
  proof (cases data)
    case (NoBody printed type_error)
    with assms PostResolved show ?thesis by simp
  next
    case (Body remote_id printed)
    with assms PostResolved show ?thesis
      by (auto simp: post_try_def post_trace_def Let_def or_else_def addTaskLog_def perform_def
          add_effects_def split: if_splits)
  qed
qed

lemma post_attempt_failed:
  assumes "accepted r = None"
  shows "\<exists>e w1. post_try r taskId (perform (HttpPost pl apiKey) w) = (Inl e, w1) \<and>
           post_catch e i taskId w1 =
             (failure_message r, add_effects (post_trace r pl apiKey taskId i) w)"
proof (cases r)
  case (PostRejected e)
  with assms show ?thesis
    by (auto simp: post_try_def post_catch_def post_trace_def failure_message_def Let_def
        addTaskLog_def perform_def add_effects_def split: option.splits)
next
  case (PostResolved status data)
  show ?thesis
  proof (cases data)
    case (NoBody printed type_error)
    with assms PostResolved show ?thesis
      by (auto simp: post_try_def post_catch_def post_trace_def failure_message_def Let_def
          addTaskLog_def perform_def add_effects_def)
  next
    case (Body remote_id printed)
    with assms PostResolved have "\<not> (status = 200 \<and> or_else remote_id [] \<noteq> [])"
      by (auto split: if_splits simp: or_else_def)
    with Body PostResolved show ?thesis
      by (auto simp: post_try_def post_catch_def post_trace_def failure_message_def Let_def
          addTaskLog_def perform_def add_effects_def)
  qed
qed

lemma callGeekAI_from_accepted:
  assumes "i < 3" and "accepted (post i) = Some rid"
  shows "callGeekAI_from post pl apiKey taskId i w =
           (Inr rid, add_effects (post_trace (post i) pl apiKey taskId i) w)"
  using assms(1) post_attempt_accepted [OF assms(2), of taskId pl apiKey w i]
  by (subst callGeekAI_from.simps) simp

lemma callGeekAI_from_last:
  assumes "accepted (post 2) = None"
  shows "callGeekAI_from post pl apiKey taskId 2 w =
           (Inl (''GeekAI Request Failed: '' @ failure_message (post 2)),
            add_effects (post_trace (post 2) pl apiKey taskId 2) w)"
proof -
  from post_attempt_failed [OF assms, of taskId pl apiKey w 2]
  obtain e w1 where "post_try (post 2) taskId (perform (HttpPost pl apiKey) w) = (Inl e, w1)"
    and "post_catch e 2 taskId w1 =
           (failure_message (post 2), add_effects (post_trace (post 2) pl apiKey taskId 2) w)"
    by blast
  then show ?thesis
    by (subst callGeekAI_from.simps) simp
qed

lemma callGeekAI_from_retry:
  assumes "i < 2" and "accepted (post i) = None"
  shows "callGeekAI_from post pl apiKey taskId i w =
           callGeekAI_from post pl apiKey taskId (i + 1)
             (add_effects (post_trace (post i) pl apiKey taskId i @ [Sleep 10000]) w)"
proof -
  from post_attempt_failed [OF assms(2), of taskId pl apiKey w i]
  obtain e w1 where "post_try (post i) taskId (perform (HttpPost pl apiKey) w) = (Inl e, w1)"
    and "post_catch e i taskId w1 =
           (failure_message (post i), add_effects (post_trace (post i) pl apiKey taskId i) w)"
    by blast
  moreover have "perform (Sleep 10000) (add_effects es w) = add_effects (es @ [Sleep 10000]) w"
    for es
    by (simp add: perform_def add_effects_def)
  ultimately have "callGeekAI_from post pl apiKey taskId i w =
           callGeekAI_from post pl apiKey taskId (i + 1)
             (add_effects (post_trace (post i) pl apiKey taskId i @ [Sleep 10000]) w)"
    using assms(1) by (subst callGeekAI_from.simps) simp
  then show ?thesis .
qed

lemma callGeekAI_trace:
  "callGeekAI post pl apiKey taskId w =
     (case first_accepted post of
        Some rid \<Rightarrow> Inr rid
      | None \<Rightarrow> Inl (''GeekAI Request Failed: '' @ failure_message (post 2)),
      add_effects (posts_trace post pl apiKey taskId) w)"
proof -
  let ?t0 = "post_trace (post 0) pl apiKey taskId 0"
  let ?t1 = "post_trace (post 1) pl apiKey taskId 1"
  let ?t2 = "post_trace (post 2) pl apiKey taskId 2"
  have n: "(0::nat) + 1 = 1" "(1::nat) + 1 = 2" "(0::nat) < 2" "(1::nat) < 2"
    "(0::nat) < 3" "(1::nat) < 3" "(2::nat) < 3"
    by simp_all
  have a: "callGeekAI_from post pl apiKey taskId i v =
      (Inr rid, add_effects (post_trace (post i) pl apiKey taskId i) v)"
    if "i < 3" "accepted (post i) = Some rid" for i rid v
    using that by (rule callGeekAI_from_accepted)
  have r0: "callGeekAI_from post pl apiKey taskId 0 w =
      callGeekAI_from post pl apiKey taskId 1 (add_effects (?t0 @ [Sleep 10000]) w)"
    if "accepted (post 0) = None"
    using callGeekAI_from_retry [where i = 0 and post = post, OF n(3) that, unfolded n] .
  have r1: "callGeekAI_from post pl apiKey taskId 1 v =
      callGeekAI_from post pl apiKey taskId 2 (add_effects (?t1 @ [Sleep 10000]) v)"
    if "accepted (post 1) = None" for v
    using callGeekAI_from_retry [where i = 1 and post = post, OF n(4) that, unfolded n] .
  have u: "[0..<1] = [0::nat]" "[0..<2] = [0, 1::nat]" "[0..<3] = [0, 1, 2::nat]"
    by (rule upt_small)+
  show ?thesis
  proof (cases "accepted (post 0)")
    case (Some rid)
    have "posts_made post = 1" and "first_accepted post = Some rid"
      using Some by (simp_all add: posts_made_def first_accepted_def)
    then show ?thesis
      unfolding callGeekAI_def a [OF n(5) Some] posts_trace_def u
      by (simp add: u del: One_nat_def)
  next
    case n0: None
    show ?thesis
    proof (cases "accepted (post 1)")
      case (Some rid)
      have "posts_made post = 2" and "first_accepted post = Some rid"
        using n0 Some by (simp_all add: posts_made_def first_accepted_def)
      then show ?thesis
        unfolding callGeekAI_def r0 [OF n0] a [OF n(6) Some] posts_trace_def u add_effects_append
        by (simp add: u del: One_nat_def)
    next
      case n1: None
      show ?thesis
      proof (cases "accepted (post 2)")
        case (Some rid)
        have "posts_made post = 3" and "first_accepted post = Some rid"
          using n0 n1 Some by (simp_all add: posts_made_def first_accepted_def)
        then show ?thesis
          unfolding callGeekAI_def r0 [OF n0] r1 [OF n1] a [OF n(7) Some] posts_trace_def u
            add_effects_append
          by (simp add: u del: One_nat_def)
      next
        case n2: None
        have "posts_made post = 3" and "first_accepted post = None"
          using n0 n1 n2 by (simp_all add: posts_made_def first_accepted_def)
        then show ?thesis
          unfolding callGeekAI_def r0 [OF n0] r1 [OF n1] callGeekAI_from_last [where post = post, OF n2]
            posts_trace_def u add_effects_append
          by (simp add: u del: One_nat_def)
      qed
    qed
  qed
qed

lemma post_trace_nonlog:
  "filter (\<lambda>e. \<not> is_log e) (post_trace r pl apiKey taskId i) = [HttpPost pl apiKey]"
  by (cases r) (simp_all add: post_trace_def split: option.splits)

lemma posts_made_cases: "posts_made post = 1 \<or> posts_made post = 2 \<or> posts_made post = 3"
  by (simp add: posts_made_def)

lemma posts_trace_nonlog:
  "filter (\<lambda>e. \<not> is_log e) (posts_trace post pl apiKey taskId) =
     separated (Sleep 10000) (replicate (posts_made post) (HttpPost pl apiKey))"
  using posts_made_cases [of post]
  by (auto simp: posts_trace_def upt_small post_trace_nonlog numeral_2_eq_2 numeral_3_eq_3)

lemma quiet_refl: "quiet w w"
  by (simp add: quiet_def)

lemma quiet_trans: "quiet w w' \<Longrightarrow> quiet w' w'' \<Longrightarrow> quiet w w''"
  by (simp add: quiet_def)

lemma quiet_addTaskLog: "quiet w (addTaskLog taskId m w)"
  by (simp add: quiet_def queries_def addTaskLog_def)

lemma quiet_add_effects: "filter is_get es = [] \<Longrightarrow> quiet w (add_effects es w)"
  by (simp add: quiet_def queries_def add_effects_def)

lemma quiet_upload_attempts: "quiet w (snd (upload_attempts put st taskId img 0 w))"
  by (auto simp: upload_attempts_unfold attempt_trace_def failure_trace_def
      intro!: quiet_add_effects split: option.splits)

lemma quiet_upload_loop: "quiet w (snd (upload_loop put st taskId imgs k links w))"
proof (induction imgs arbitrary: k links w)
  case Nil
  then show ?case by (simp add: quiet_refl)
next
  case (Cons img imgs)
  obtain r w' where u: "upload_attempts (put k) st taskId img 0 w = (r, w')"
    by (cases "upload_attempts (put k) st taskId img 0 w")
  from quiet_upload_attempts [of w "put k" st taskId img] u have q: "quiet w w'" by simp
  show ?case
  proof (cases r)
    case (Inl err)
    with u q show ?thesis by simp
  next
    case (Inr pushed)
    from quiet_trans [OF q Cons.IH [where w = w' and k = "k + 1" and links = "links @ pushed"]] u Inr
    show ?thesis by simp
  qed
qed

lemma quiet_uploadImagesToOSS:
  "quiet w (snd (uploadImagesToOSS checks put images st taskId w))"
  by (simp add: uploadImagesToOSS_def quiet_refl quiet_upload_loop split: option.splits)

lemma quiet_log_links: "quiet w (log_links taskId i ls w)"
proof (induction ls arbitrary: i w)
  case Nil
  then show ?case by (simp add: quiet_refl)
next
  case (Cons l ls)
  from quiet_trans [OF quiet_addTaskLog Cons.IH] show ?case by simp
qed

lemma filter_separated_none:
  "\<not> P s \<Longrightarrow> \<forall>x\<in>set xs. \<not> P x \<Longrightarrow> filter P (separated s xs) = []"
  by (induction s xs rule: separated.induct) simp_all

lemma filter_get_via_nonlog:
  "filter is_get es = filter is_get (filter (\<lambda>e. \<not> is_log e) es)"
proof -
  have "is_get e \<Longrightarrow> \<not> is_log e" for e by (cases e) simp_all
  then show ?thesis by (induction es) auto
qed

lemma quiet_callGeekAI: "quiet w (snd (callGeekAI post pl apiKey taskId w))"
proof -
  have "filter is_get (posts_trace post pl apiKey taskId) = []"
    by (subst filter_get_via_nonlog) (simp add: posts_trace_nonlog filter_separated_none)
  then show ?thesis
    by (simp add: callGeekAI_trace quiet_add_effects)
qed

lemma find_update_first:
  assumes "\<And>x. P x \<Longrightarrow> P (f x)"
  shows "find P (update_first P f xs) = map_option f (find P xs)"
  using assms by (induction xs) auto

lemma find_task_updateTask:
  assumes "\<And>t. task_id (f t) = task_id t"
  shows "find_task taskId (updateTask taskId f d) = map_option f (find_task taskId d)"
proof (cases "tasks_file d")
  case None
  then show ?thesis by (simp add: find_task_def updateTask_def stored_tasks_def)
next
  case (Some ts)
  have "find (\<lambda>t. task_id t = taskId) (update_first (\<lambda>t. task_id t = taskId) f ts) =
        map_option f (find (\<lambda>t. task_id t = taskId) ts)"
    by (rule find_update_first) (simp add: assms)
  with Some show ?thesis by (simp add: find_task_def updateTask_def stored_tasks_def)
qed

lemma executeTask_until_poll_Inr:
  assumes "executeTask_until_poll env taskId req w = (Inr taskUuid, w1)"
  shows "store w1 =
           updateTask taskId (\<lambda>t. t\<lparr>geekai_task_id := Some taskUuid\<rparr>)
             (updateTask taskId (\<lambda>t. t\<lparr>task_status := Processing\<rparr>) (store w)) \<and>
         queries w1 = queries w \<and>
         (\<exists>links v. fst (callGeekAI (env_post env) (constructPayload req links)
                        (geekaiApiKey (settings req)) taskId v) = Inr taskUuid)"
proof -
  let ?w1 = "update_store (updateTask taskId (\<lambda>t. t\<lparr>task_status := Processing\<rparr>)) w"
  let ?w4 = "addTaskLog taskId
                 (''Starting upload of '' @ show_nat (length (input_images req)) @
                  '' images to Aliyun OSS...'')
              (addTaskLog taskId
                 (''Stage: '' @ stage req @ '', Model: '' @ req_model req @ '', Size: '' @
                  req_size req @ '', Ratio: '' @ aspect_ratio req)
                 (addTaskLog taskId (''Task init. '' @ env_diagnostics env) ?w1))"
  have q4: "quiet ?w1 ?w4"
    by (intro quiet_trans [OF _ quiet_addTaskLog] quiet_addTaskLog)
  obtain r5 w5 where up: "uploadImagesToOSS (env_client env) (env_put env) (input_images req) (settings req) taskId ?w4 = (r5, w5)"
    by (cases "uploadImagesToOSS (env_client env) (env_put env) (input_images req) (settings req) taskId ?w4")
  from quiet_uploadImagesToOSS [of ?w4 "env_client env" "env_put env" "input_images req" "settings req" taskId] up
  have q5: "quiet ?w4 w5" by simp
  from assms up obtain links where r5: "r5 = Inr links"
    by (cases r5) (simp_all add: executeTask_until_poll_def Let_def)
  let ?pl = "constructPayload req links"
  let ?w12 = "addTaskLog taskId ''Submitting task to GeekAI API...''
               (addTaskLog taskId ''---------------------------''
                 (addTaskLog taskId (env_stringify env ?pl)
                   (addTaskLog taskId ''--- API REQUEST PAYLOAD ---''
                     (addTaskLog taskId ''Constructing API payload...''
                       (log_links taskId 0 links
                         (addTaskLog taskId ''OSS upload completed successfully.'' w5))))))"
  have q12: "quiet w5 ?w12"
    by (intro quiet_trans [OF _ quiet_addTaskLog] quiet_trans [OF _ quiet_log_links]
        quiet_addTaskLog)
  obtain r13 w13 where cg: "callGeekAI (env_post env) ?pl (geekaiApiKey (settings req)) taskId ?w12 = (r13, w13)"
    by (cases "callGeekAI (env_post env) ?pl (geekaiApiKey (settings req)) taskId ?w12")
  from quiet_callGeekAI [of ?w12 "env_post env" ?pl "geekaiApiKey (settings req)" taskId] cg
  have q13: "quiet ?w12 w13" by simp
  from assms up r5 cg have r13: "r13 = Inr taskUuid"
    by (cases r13) (simp_all add: executeTask_until_poll_def Let_def)
  from assms up r5 cg r13
  have w1: "w1 = addTaskLog taskId ''Polling for results...''
                  (addTaskLog taskId (''Task submitted successfully. Remote ID: '' @ taskUuid)
                    (update_store (updateTask taskId (\<lambda>t. t\<lparr>geekai_task_id := Some taskUuid\<rparr>)) w13))"
    by (simp add: executeTask_until_poll_def Let_def)
  from quiet_trans [OF quiet_trans [OF quiet_trans [OF q4 q5] q12] q13]
  have "quiet ?w1 w13" .
  then have "store w13 = updateTask taskId (\<lambda>t. t\<lparr>task_status := Processing\<rparr>) (store w)"
    and "queries w13 = queries w"
    by (simp_all add: quiet_def update_store_def queries_def)
  with w1 have "store w1 =
           updateTask taskId (\<lambda>t. t\<lparr>geekai_task_id := Some taskUuid\<rparr>)
             (updateTask taskId (\<lambda>t. t\<lparr>task_status := Processing\<rparr>) (store w))"
    and "queries w1 = queries w"
    by (simp_all add: addTaskLog_def update_store_def queries_def)
  moreover from cg r13 have "fst (callGeekAI (env_post env) ?pl (geekaiApiKey (settings req)) taskId ?w12) =
      Inr taskUuid" by simp
  ultimately show ?thesis by blast
qed

lemma callGeekAI_result':
  "fst (callGeekAI post pl apiKey taskId w) =
     (case first_accepted post of
        Some rid \<Rightarrow> Inr rid
      | None \<Rightarrow> Inl (''GeekAI Request Failed: '' @ failure_message (post 2)))"
  by (simp add: callGeekAI_trace)

lemma uploads_succeed_links:
  assumes "uploads_succeed env req"
  shows "fst (uploadImagesToOSS (env_client env) (env_put env) (input_images req) (settings req) taskId w) =
           Inr (map (oss_link (settings req)) (input_images req))"
  using assms upload_loop_all_ok [of "input_images req" "env_put env" 0 "settings req" taskId "[]" w]
  by (simp add: uploads_succeed_def uploadImagesToOSS_def new_OSS_def)

lemma executeTask_until_poll_result:
  assumes "uploads_succeed env req"
  shows "\<exists>w1. executeTask_until_poll env taskId req w =
           (case first_accepted (env_post env) of
              Some rid \<Rightarrow> Inr rid
            | None \<Rightarrow> Inl (''GeekAI Request Failed: '' @ failure_message (env_post env 2)), w1) \<and>
          (first_accepted (env_post env) = None \<longrightarrow>
             store w1 = updateTask taskId (\<lambda>t. t\<lparr>task_status := Processing\<rparr>) (store w))"
proof -
  let ?links = "map (oss_link (settings req)) (input_images req)"
  let ?w1 = "update_store (updateTask taskId (\<lambda>t. t\<lparr>task_status := Processing\<rparr>)) w"
  let ?w4 = "addTaskLog taskId
                 (''Starting upload of '' @ show_nat (length (input_images req)) @
                  '' images to Aliyun OSS...'')
              (addTaskLog taskId
                 (''Stage: '' @ stage req @ '', Model: '' @ req_model req @ '', Size: '' @
                  req_size req @ '', Ratio: '' @ aspect_ratio req)
                 (addTaskLog taskId (''Task init. '' @ env_diagnostics env) ?w1))"
  have q4: "quiet ?w1 ?w4"
    by (intro quiet_trans [OF _ quiet_addTaskLog] quiet_addTaskLog)
  obtain r5 w5 where up: "uploadImagesToOSS (env_client env) (env_put env) (input_images req) (settings req) taskId ?w4 = (r5, w5)"
    by (cases "uploadImagesToOSS (env_client env) (env_put env) (input_images req) (settings req) taskId ?w4")
  from uploads_succeed_links [OF assms, of taskId ?w4] up have r5: "r5 = Inr ?links" by simp
  from quiet_uploadImagesToOSS [of ?w4 "env_client env" "env_put env" "input_images req" "settings req" taskId] up
  have q5: "quiet ?w4 w5" by simp
  let ?pl = "constructPayload req ?links"
  let ?w12 = "addTaskLog taskId ''Submitting task to GeekAI API...''
               (addTaskLog taskId ''---------------------------''
                 (addTaskLog taskId (env_stringify env ?pl)
                   (addTaskLog taskId ''--- API REQUEST PAYLOAD ---''
                     (addTaskLog taskId ''Constructing API payload...''
                       (log_links taskId 0 ?links
                         (addTaskLog taskId ''OSS upload completed successfully.'' w5))))))"
  have q12: "quiet w5 ?w12"
    by (intro quiet_trans [OF _ quiet_addTaskLog] quiet_trans [OF _ quiet_log_links]
        quiet_addTaskLog)
  obtain r13 w13 where cg: "callGeekAI (env_post env) ?pl (geekaiApiKey (settings req)) taskId ?w12 = (r13, w13)"
    by (cases "callGeekAI (env_post env) ?pl (geekaiApiKey (settings req)) taskId ?w12")
  from callGeekAI_result' [of "env_post env" ?pl "geekaiApiKey (settings req)" taskId ?w12] cg
  have r13: "r13 = (case first_accepted (env_post env) of
        Some rid \<Rightarrow> Inr rid
      | None \<Rightarrow> Inl (''GeekAI Request Failed: '' @ failure_message (env_post env 2)))"
    by simp
  from quiet_callGeekAI [of ?w12 "env_post env" ?pl "geekaiApiKey (settings req)" taskId] cg
  have q13: "quiet ?w12 w13" by simp
  from quiet_trans [OF quiet_trans [OF quiet_trans [OF q4 q5] q12] q13]
  have s13: "store w13 = updateTask taskId (\<lambda>t. t\<lparr>task_status := Processing\<rparr>) (store w)"
    by (simp add: quiet_def update_store_def)
  show ?thesis
  proof (cases "first_accepted (env_post env)")
    case None
    with up r5 cg r13 have "executeTask_until_poll env taskId req w =
        (Inl (''GeekAI Request Failed: '' @ failure_message (env_post env 2)), w13)"
      by (simp add: executeTask_until_poll_def Let_def)
    with None s13 show ?thesis by simp
  next
    case (Some rid)
    with up r5 cg r13 have "fst (executeTask_until_poll env taskId req w) = Inr rid"
      by (simp add: executeTask_until_poll_def Let_def)
    with Some show ?thesis
      by (cases "executeTask_until_poll env taskId req w") simp
  qed
qed

lemma find_task_catch:
  "find_task taskId (store (executeTask_catch env taskId message w)) =
     map_option
       (\<lambda>t. t\<lparr>task_status := Failed, endTime := Some (env_now env),
               error_message := Some (if message = [] then ''Unknown error'' else message)\<rparr>)
       (find_task taskId (store w))"
  by (simp add: executeTask_catch_def Let_def update_store_def addTaskLog_def
      find_task_updateTask)

lemma show_int_200: "show_int 200 = ''200''"
  by code_simp

lemma unusable_response_message:
  "failure_message (PostResolved 200 (Body None printed)) = ''API returned 200: '' @ printed"
  by (simp add: failure_message_def or_else_def show_int_200)

lemma unusable_response_trace:
  "post_trace (PostResolved 200 (Body None printed)) pl apiKey taskId i =
     [HttpPost pl apiKey,
      Log taskId ''API Response Status: 200'',
      Log taskId (''GeekAI API Call Attempt '' @ show_nat (i + 1) @
                  '' Failed: API returned 200: '' @ printed)]"
  by (simp add: post_trace_def unusable_response_message show_int_200)

lemma usable_response_trace:
  assumes "rid \<noteq> []"
  shows "post_trace (PostResolved 200 (Body (Some rid) printed)) pl apiKey taskId i =
     [HttpPost pl apiKey, Log taskId ''API Response Status: 200'']"
  using assms by (simp add: post_trace_def show_int_200 or_else_def)

lemma three_posts:
  assumes "accepted (post 0) = None" and "accepted (post 1) = None" and "accepted (post 2) = None"
  shows "posts_trace post pl apiKey taskId =
           post_trace (post 0) pl apiKey taskId 0 @ [Sleep 10000] @
           post_trace (post 1) pl apiKey taskId 1 @ [Sleep 10000] @
           post_trace (post 2) pl apiKey taskId 2"
    and "first_accepted post = None"
proof -
  have "posts_made post = 3"
    using assms by (simp add: posts_made_def)
  then show "posts_trace post pl apiKey taskId =
           post_trace (post 0) pl apiKey taskId 0 @ [Sleep 10000] @
           post_trace (post 1) pl apiKey taskId 1 @ [Sleep 10000] @
           post_trace (post 2) pl apiKey taskId 2"
    unfolding posts_trace_def by (simp add: upt_small del: One_nat_def)
  show "first_accepted post = None"
    using assms by (simp add: first_accepted_def)
qed

lemma two_posts:
  assumes "accepted (post 0) = None" and "accepted (post 1) = Some rid"
  shows "posts_trace post pl apiKey taskId =
           post_trace (post 0) pl apiKey taskId 0 @ [Sleep 10000] @
           post_trace (post 1) pl apiKey taskId 1"
    and "first_accepted post = Some rid"
proof -
  have "posts_made post = 2"
    using assms by (simp add: posts_made_def)
  then show "posts_trace post pl apiKey taskId =
           post_trace (post 0) pl apiKey taskId 0 @ [Sleep 10000] @
           post_trace (post 1) pl apiKey taskId 1"
    unfolding posts_trace_def by (simp add: upt_small del: One_nat_def)
  show "first_accepted post = Some rid"
    using assms by (simp add: first_accepted_def)
qed

lemma show_nat_next: "show_nat (0 + 1) = ''1''" "show_nat (1 + 1) = ''2''" "show_nat (2 + 1) = ''3''"
  by code_simp+

text \<open>
  C8. \<open>callGeekAI\<close> leaves the store alone and does what the trace of its attempts says:
  between one and three posts, as many as it takes to reach the first that counts as a
  success, each followed by its log lines, with a delay of 10000 ms between two posts and
  none after the last. It returns the task id of the first of the three attempts that
  counts as a success, and throws when none does. A response with status 200 and no task
  id does not count: after one of them the post is made again 10000 ms later, and the id
  of the second response is returned after two posts; three of them make it throw after
  three posts. A response with status 200 and a body \<open>null\<close> does not count either, and three
  of them make it throw the message of the type error. In \<open>executeTask\<close>, for a stored task
  whose inputs are uploaded: when no attempt succeeds the pipeline settles with the record
  failed and the message of the error; when an attempt succeeds the \<open>try\<close> block reaches the
  call of \<open>pollGeekAIResult\<close>, and in the world in which polling starts the record already
  carries the remote task id, and no status query has been made.
\<close>

theorem callGeekAI_contract:
  assumes "find_task taskId (store w) = Some t"
  shows "callGeekAI post pl apiKey taskId w =
           (case first_accepted post of
              Some rid \<Rightarrow> Inr rid
            | None \<Rightarrow> Inl (''GeekAI Request Failed: '' @ failure_message (post 2)),
            w\<lparr>effects := effects w @ posts_trace post pl apiKey taskId\<rparr>) \<and>
         filter (\<lambda>e. \<not> is_log e) (posts_trace post pl apiKey taskId) =
           separated (Sleep 10000) (replicate (posts_made post) (HttpPost pl apiKey)) \<and>
         1 \<le> posts_made post \<and> posts_made post \<le> 3 \<and>
         (post 0 = PostResolved 200 (Body None printed) \<and>
          post 1 = PostResolved 200 (Body (Some remote_id) printed') \<and> remote_id \<noteq> [] \<longrightarrow>
            callGeekAI post pl apiKey taskId w =
              (Inr remote_id,
               w\<lparr>effects := effects w @
                 [HttpPost pl apiKey,
                  Log taskId ''API Response Status: 200'',
                  Log taskId (''GeekAI API Call Attempt 1 Failed: API returned 200: '' @ printed),
                  Sleep 10000,
                  HttpPost pl apiKey,
                  Log taskId ''API Response Status: 200'']\<rparr>)) \<and>
         ((\<forall>i<3. post i = PostResolved 200 (Body None printed)) \<longrightarrow>
            callGeekAI post pl apiKey taskId w =
              (Inl (''GeekAI Request Failed: API returned 200: '' @ printed),
               w\<lparr>effects := effects w @
                 [HttpPost pl apiKey,
                  Log taskId ''API Response Status: 200'',
                  Log taskId (''GeekAI API Call Attempt 1 Failed: API returned 200: '' @ printed),
                  Sleep 10000,
                  HttpPost pl apiKey,
                  Log taskId ''API Response Status: 200'',
                  Log taskId (''GeekAI API Call Attempt 2 Failed: API returned 200: '' @ printed),
                  Sleep 10000,
                  HttpPost pl apiKey,
                  Log taskId ''API Response Status: 200'',
                  Log taskId (''GeekAI API Call Attempt 3 Failed: API returned 200: '' @ printed)]\<rparr>)) \<and>
         ((\<forall>i<3. post i = PostResolved 200 (NoBody printed type_error)) \<longrightarrow>
            fst (callGeekAI post pl apiKey taskId w) =
              Inl (''GeekAI Request Failed: '' @ type_error) \<and>
            posts_made post = 3) \<and>
         (uploads_succeed env req \<and> first_accepted (env_post env) = None \<longrightarrow>
            (\<exists>w'. executeTask env taskId req w = Some w' \<and>
                  find_task taskId (store w') =
                    Some (t\<lparr>task_status := Failed, endTime := Some (env_now env),
                            error_message :=
                              Some (''GeekAI Request Failed: '' @
                                    failure_message (env_post env 2))\<rparr>))) \<and>
         (uploads_succeed env req \<longrightarrow>
            (\<forall>rid. first_accepted (env_post env) = Some rid \<longrightarrow>
               (\<exists>w1. executeTask_until_poll env taskId req w = (Inr rid, w1)))) \<and>
         (\<forall>taskUuid w1. executeTask_until_poll env taskId req w = (Inr taskUuid, w1) \<longrightarrow>
            find_task taskId (store w1) =
              Some (t\<lparr>task_status := Processing, geekai_task_id := Some taskUuid\<rparr>) \<and>
            queries w1 = queries w \<and>
            executeTask env taskId req w =
              (case pollGeekAIResult (env_get env) taskUuid (geekaiApiKey (settings req)) taskId w1 of
                 None \<Rightarrow> None
               | Some (Inl message, w2) \<Rightarrow> Some (executeTask_catch env taskId message w2)
               | Some (Inr resultUrl, w2) \<Rightarrow> executeTask_finish env taskId req resultUrl w2))"
proof (intro conjI impI allI)
  show "callGeekAI post pl apiKey taskId w =
           (case first_accepted post of
              Some rid \<Rightarrow> Inr rid
            | None \<Rightarrow> Inl (''GeekAI Request Failed: '' @ failure_message (post 2)),
            w\<lparr>effects := effects w @ posts_trace post pl apiKey taskId\<rparr>)"
    by (simp add: callGeekAI_trace add_effects_def)
next
  show "filter (\<lambda>e. \<not> is_log e) (posts_trace post pl apiKey taskId) =
           separated (Sleep 10000) (replicate (posts_made post) (HttpPost pl apiKey))"
    by (rule posts_trace_nonlog)
next
  show "1 \<le> posts_made post" and "posts_made post \<le> 3"
    by (simp_all add: posts_made_def)
next
  assume a: "post 0 = PostResolved 200 (Body None printed) \<and>
          post 1 = PostResolved 200 (Body (Some remote_id) printed') \<and> remote_id \<noteq> []"
  then have "accepted (post 0) = None" and "accepted (post 1) = Some remote_id"
    by (simp_all add: or_else_def)
  note tp = two_posts [OF this]
  from a have p: "post 0 = PostResolved 200 (Body None printed)"
    "post 1 = PostResolved 200 (Body (Some remote_id) printed')" and r: "remote_id \<noteq> []"
    by simp_all
  show "callGeekAI post pl apiKey taskId w =
              (Inr remote_id,
               w\<lparr>effects := effects w @
                 [HttpPost pl apiKey,
                  Log taskId ''API Response Status: 200'',
                  Log taskId (''GeekAI API Call Attempt 1 Failed: API returned 200: '' @ printed),
                  Sleep 10000,
                  HttpPost pl apiKey,
                  Log taskId ''API Response Status: 200'']\<rparr>)"
    unfolding callGeekAI_trace tp p unusable_response_trace usable_response_trace [OF r]
      show_nat_next add_effects_def
    by simp
next
  assume "\<forall>i<3. post i = PostResolved 200 (Body None printed)"
  then have p: "post 0 = PostResolved 200 (Body None printed)"
    "post 1 = PostResolved 200 (Body None printed)"
    "post 2 = PostResolved 200 (Body None printed)"
    by simp_all
  then have "accepted (post 0) = None" "accepted (post 1) = None" "accepted (post 2) = None"
    by simp_all
  note tp = three_posts [OF this]
  show "callGeekAI post pl apiKey taskId w =
              (Inl (''GeekAI Request Failed: API returned 200: '' @ printed),
               w\<lparr>effects := effects w @
                 [HttpPost pl apiKey,
                  Log taskId ''API Response Status: 200'',
                  Log taskId (''GeekAI API Call Attempt 1 Failed: API returned 200: '' @ printed),
                  Sleep 10000,
                  HttpPost pl apiKey,
                  Log taskId ''API Response Status: 200'',
                  Log taskId (''GeekAI API Call Attempt 2 Failed: API returned 200: '' @ printed),
                  Sleep 10000,
                  HttpPost pl apiKey,
                  Log taskId ''API Response Status: 200'',
                  Log taskId (''GeekAI API Call Attempt 3 Failed: API returned 200: '' @ printed)]\<rparr>)"
    unfolding callGeekAI_trace tp p unusable_response_trace unusable_response_message
      show_nat_next add_effects_def
    by simp
next
  assume "\<forall>i<3. post i = PostResolved 200 (NoBody printed type_error)"
  then have p: "post 0 = PostResolved 200 (NoBody printed type_error)"
    "post 1 = PostResolved 200 (NoBody printed type_error)"
    "post 2 = PostResolved 200 (NoBody printed type_error)"
    by simp_all
  then show "fst (callGeekAI post pl apiKey taskId w) =
      Inl (''GeekAI Request Failed: '' @ type_error)"
    by (simp add: callGeekAI_trace first_accepted_def failure_message_def or_else_def)
  from p show "posts_made post = 3"
    by (simp add: posts_made_def)
next
  assume a: "uploads_succeed env req \<and> first_accepted (env_post env) = None"
  with executeTask_until_poll_result [of env req taskId w]
  obtain w1 where u: "executeTask_until_poll env taskId req w =
      (Inl (''GeekAI Request Failed: '' @ failure_message (env_post env 2)), w1)"
    and s: "store w1 = updateTask taskId (\<lambda>t. t\<lparr>task_status := Processing\<rparr>) (store w)"
    by auto
  from u have "executeTask env taskId req w =
      Some (executeTask_catch env taskId
              (''GeekAI Request Failed: '' @ failure_message (env_post env 2)) w1)"
    by (simp add: executeTask_def)
  moreover have "find_task taskId (store (executeTask_catch env taskId
              (''GeekAI Request Failed: '' @ failure_message (env_post env 2)) w1)) =
      Some (t\<lparr>task_status := Failed, endTime := Some (env_now env),
              error_message :=
                Some (''GeekAI Request Failed: '' @ failure_message (env_post env 2))\<rparr>)"
    using assms by (simp add: find_task_catch s find_task_updateTask)
  ultimately show "\<exists>w'. executeTask env taskId req w = Some w' \<and>
                  find_task taskId (store w') =
                    Some (t\<lparr>task_status := Failed, endTime := Some (env_now env),
                            error_message :=
                              Some (''GeekAI Request Failed: '' @
                                    failure_message (env_post env 2))\<rparr>)"
    by blast
next
  fix rid
  assume "uploads_succeed env req" and "first_accepted (env_post env) = Some rid"
  with executeTask_until_poll_result [of env req taskId w]
  show "\<exists>w1. executeTask_until_poll env taskId req w = (Inr rid, w1)"
    by auto
next
  fix taskUuid w1
  assume u: "executeTask_until_poll env taskId req w = (Inr taskUuid, w1)"
  from executeTask_until_poll_Inr [OF u] assms
  show "find_task taskId (store w1) =
          Some (t\<lparr>task_status := Processing, geekai_task_id := Some taskUuid\<rparr>)"
    by (simp add: find_task_updateTask)
  from executeTask_until_poll_Inr [OF u] show "queries w1 = queries w"
    by simp
  from u show "executeTask env taskId req w =
              (case pollGeekAIResult (env_get env) taskUuid (geekaiApiKey (settings req)) taskId w1 of
                 None \<Rightarrow> None
               | Some (Inl message, w2) \<Rightarrow> Some (executeTask_catch env taskId message w2)
               | Some (Inr resultUrl, w2) \<Rightarrow> executeTask_finish env taskId req resultUrl w2)"
    by (simp add: executeTask_def)
qed

theorem callGeekAI_contract_witness:
  "find_task ''task-1'' (store stored_world) = Some (sample_task ''task-1'' Pending) \<and>
   uploads_succeed (sample_env id_missing_once) (sample_request ''hairstyle_extraction'' two_images) \<and>
   first_accepted id_missing_once = Some ''remote-7'' \<and>
   first_accepted id_always_missing = None \<and>
   callGeekAI id_missing_once sample_payload ''sk-1'' ''task-1'' stored_world =
     (Inr ''remote-7'',
      stored_world\<lparr>effects :=
        [HttpPost sample_payload ''sk-1'',
         Log ''task-1'' ''API Response Status: 200'',
         Log ''task-1'' ''GeekAI API Call Attempt 1 Failed: API returned 200: {}'',
         Sleep 10000,
         HttpPost sample_payload ''sk-1'',
         Log ''task-1'' ''API Response Status: 200'']\<rparr>) \<and>
   callGeekAI id_always_missing sample_payload ''sk-1'' ''task-1'' stored_world =
     (Inl ''GeekAI Request Failed: API returned 200: {}'',
      stored_world\<lparr>effects :=
        [HttpPost sample_payload ''sk-1'',
         Log ''task-1'' ''API Response Status: 200'',
         Log ''task-1'' ''GeekAI API Call Attempt 1 Failed: API returned 200: {}'',
         Sleep 10000,
         HttpPost sample_payload ''sk-1'',
         Log ''task-1'' ''API Response Status: 200'',
         Log ''task-1'' ''GeekAI API Call Attempt 2 Failed: API returned 200: {}'',
         Sleep 10000,
         HttpPost sample_payload ''sk-1'',
         Log ''task-1'' ''API Response Status: 200'',
         Log ''task-1'' ''GeekAI API Call Attempt 3 Failed: API returned 200: {}'']\<rparr>) \<and>
   fst (callGeekAI body_always_null sample_payload ''sk-1'' ''task-1'' stored_world) =
     Inl ''GeekAI Request Failed: Cannot read properties of null'' \<and>
   (\<exists>w1. executeTask_until_poll (sample_env id_missing_once) ''task-1''
            (sample_request ''hairstyle_extraction'' two_images) stored_world =
            (Inr ''remote-7'', w1) \<and>
          find_task ''task-1'' (store w1) =
            Some ((sample_task ''task-1'' Pending)
                    \<lparr>task_status := Processing, geekai_task_id := Some ''remote-7''\<rparr>)) \<and>
   (\<exists>w'. executeTask (sample_env id_always_missing) ''task-1''
            (sample_request ''hairstyle_extraction'' two_images) stored_world = Some w' \<and>
          find_task ''task-1'' (store w') =
            Some ((sample_task ''task-1'' Pending)
                    \<lparr>task_status := Failed, endTime := Some ''1/1/2025, 10:05:00 AM'',
                     error_message := Some ''GeekAI Request Failed: API returned 200: {}''\<rparr>))"
proof -
  let ?req = "sample_request ''hairstyle_extraction'' two_images"
  have f: "find_task ''task-1'' (store stored_world) = Some (sample_task ''task-1'' Pending)"
    by (simp add: find_task_def stored_world_def stored_tasks_def sample_task_def)
  have "\<forall>k<length two_images. \<exists>i<3. flaky_put k i = None"
    by (auto simp: flaky_put_def intro: exI [of _ 2])
  then have u: "uploads_succeed (sample_env post) ?req" for post
    by (simp add: uploads_succeed_def sample_env_def sample_request_def sample_settings_def)
  have a: "first_accepted id_missing_once = Some ''remote-7''"
    by (simp add: first_accepted_def id_missing_once_def or_else_def)
  have n: "first_accepted id_always_missing = None"
    by (simp add: first_accepted_def id_always_missing_def)
  have m: "failure_message (id_always_missing 2) = ''API returned 200: {}''"
    by (simp add: id_always_missing_def unusable_response_message)
  have ep: "env_post (sample_env p) = p" for p
    by (simp add: sample_env_def)
  have en: "env_now (sample_env p) = ''1/1/2025, 10:05:00 AM''" for p
    by (simp add: sample_env_def)
  have ew: "effects stored_world = []"
    by (simp add: stored_world_def)
  note c1 = callGeekAI_contract [OF f, where env = "sample_env id_missing_once" and req = ?req
      and post = id_missing_once and pl = sample_payload and apiKey = "''sk-1''"
      and printed = "''{}''" and remote_id = "''remote-7''" and printed' = "''{task_id:remote-7}''",
      unfolded ep en]
  note c2 = callGeekAI_contract [OF f, where env = "sample_env id_always_missing" and req = ?req
      and post = id_always_missing and pl = sample_payload and apiKey = "''sk-1''"
      and printed = "''{}''", unfolded ep en]
  note c3 = callGeekAI_contract [OF f, where post = body_always_null and pl = sample_payload
      and apiKey = "''sk-1''" and printed = "''null''"
      and type_error = "''Cannot read properties of null''"]
  have h1: "id_missing_once 0 = PostResolved 200 (Body None ''{}'') \<and>
      id_missing_once 1 = PostResolved 200 (Body (Some ''remote-7'') ''{task_id:remote-7}'') \<and>
      ''remote-7'' \<noteq> []"
    by (simp add: id_missing_once_def)
  have h2: "\<forall>i<3. id_always_missing i = PostResolved 200 (Body None ''{}'')"
    by (simp add: id_always_missing_def)
  have h3: "\<forall>i<3. body_always_null i =
      PostResolved 200 (NoBody ''null'' ''Cannot read properties of null'')"
    by (simp add: body_always_null_def)
  from c1 h1 have g3: "callGeekAI id_missing_once sample_payload ''sk-1'' ''task-1'' stored_world =
     (Inr ''remote-7'',
      stored_world\<lparr>effects := effects stored_world @
        [HttpPost sample_payload ''sk-1'',
         Log ''task-1'' ''API Response Status: 200'',
         Log ''task-1'' (''GeekAI API Call Attempt 1 Failed: API returned 200: '' @ ''{}''),
         Sleep 10000,
         HttpPost sample_payload ''sk-1'',
         Log ''task-1'' ''API Response Status: 200'']\<rparr>)"
    by blast
  from c2 h2 have g4: "callGeekAI id_always_missing sample_payload ''sk-1'' ''task-1'' stored_world =
     (Inl (''GeekAI Request Failed: API returned 200: '' @ ''{}''),
      stored_world\<lparr>effects := effects stored_world @
        [HttpPost sample_payload ''sk-1'',
         Log ''task-1'' ''API Response Status: 200'',
         Log ''task-1'' (''GeekAI API Call Attempt 1 Failed: API returned 200: '' @ ''{}''),
         Sleep 10000,
         HttpPost sample_payload ''sk-1'',
         Log ''task-1'' ''API Response Status: 200'',
         Log ''task-1'' (''GeekAI API Call Attempt 2 Failed: API returned 200: '' @ ''{}''),
         Sleep 10000,
         HttpPost sample_payload ''sk-1'',
         Log ''task-1'' ''API Response Status: 200'',
         Log ''task-1'' (''GeekAI API Call Attempt 3 Failed: API returned 200: '' @ ''{}'')]\<rparr>)"
    by blast
  from c3 h3 have g5: "fst (callGeekAI body_always_null sample_payload ''sk-1'' ''task-1'' stored_world) =
     Inl (''GeekAI Request Failed: '' @ ''Cannot read properties of null'')"
    by blast
  from c1 have "uploads_succeed (sample_env id_missing_once) ?req \<longrightarrow>
      (\<forall>rid. first_accepted id_missing_once = Some rid \<longrightarrow>
         (\<exists>w1. executeTask_until_poll (sample_env id_missing_once) ''task-1'' ?req stored_world =
                 (Inr rid, w1)))"
    by blast
  with u [of id_missing_once] a
  obtain w1 where w1: "executeTask_until_poll (sample_env id_missing_once) ''task-1'' ?req stored_world =
      (Inr ''remote-7'', w1)"
    by blast
  from c1 have "\<forall>taskUuid w1.
      executeTask_until_poll (sample_env id_missing_once) ''task-1'' ?req stored_world =
        (Inr taskUuid, w1) \<longrightarrow>
      find_task ''task-1'' (store w1) =
        Some ((sample_task ''task-1'' Pending)
                \<lparr>task_status := Processing, geekai_task_id := Some taskUuid\<rparr>)"
    by blast
  with w1 have 1: "\<exists>w1. executeTask_until_poll (sample_env id_missing_once) ''task-1'' ?req stored_world =
            (Inr ''remote-7'', w1) \<and>
          find_task ''task-1'' (store w1) =
            Some ((sample_task ''task-1'' Pending)
                    \<lparr>task_status := Processing, geekai_task_id := Some ''remote-7''\<rparr>)"
    by blast
  from c2 have "uploads_succeed (sample_env id_always_missing) ?req \<and>
      first_accepted id_always_missing = None \<longrightarrow>
      (\<exists>w'. executeTask (sample_env id_always_missing) ''task-1'' ?req stored_world = Some w' \<and>
            find_task ''task-1'' (store w') =
              Some ((sample_task ''task-1'' Pending)
                      \<lparr>task_status := Failed, endTime := Some ''1/1/2025, 10:05:00 AM'',
                       error_message :=
                         Some (''GeekAI Request Failed: '' @
                               failure_message (id_always_missing 2))\<rparr>))"
    by blast
  with u [of id_always_missing] n
  have 2: "\<exists>w'. executeTask (sample_env id_always_missing) ''task-1'' ?req stored_world = Some w' \<and>
          find_task ''task-1'' (store w') =
            Some ((sample_task ''task-1'' Pending)
                    \<lparr>task_status := Failed, endTime := Some ''1/1/2025, 10:05:00 AM'',
                     error_message := Some ''GeekAI Request Failed: API returned 200: {}''\<rparr>)"
    by (simp add: m)
  from g3 have g3s: "callGeekAI id_missing_once sample_payload ''sk-1'' ''task-1'' stored_world =
     (Inr ''remote-7'',
      stored_world\<lparr>effects :=
        [HttpPost sample_payload ''sk-1'',
         Log ''task-1'' ''API Response Status: 200'',
         Log ''task-1'' ''GeekAI API Call Attempt 1 Failed: API returned 200: {}'',
         Sleep 10000,
         HttpPost sample_payload ''sk-1'',
         Log ''task-1'' ''API Response Status: 200'']\<rparr>)"
    by (simp add: ew)
  from g4 have g4s: "callGeekAI id_always_missing sample_payload ''sk-1'' ''task-1'' stored_world =
     (Inl ''GeekAI Request Failed: API returned 200: {}'',
      stored_world\<lparr>effects :=
        [HttpPost sample_payload ''sk-1'',
         Log ''task-1'' ''API Response Status: 200'',
         Log ''task-1'' ''GeekAI API Call Attempt 1 Failed: API returned 200: {}'',
         Sleep 10000,
         HttpPost sample_payload ''sk-1'',
         Log ''task-1'' ''API Response Status: 200'',
         Log ''task-1'' ''GeekAI API Call Attempt 2 Failed: API returned 200: {}'',
         Sleep 10000,
         HttpPost sample_payload ''sk-1'',
         Log ''task-1'' ''API Response Status: 200'',
         Log ''task-1'' ''GeekAI API Call Attempt 3 Failed: API returned 200: {}'']\<rparr>)"
    by (simp add: ew)
  from g5 have g5s: "fst (callGeekAI body_always_null sample_payload ''sk-1'' ''task-1'' stored_world) =
     Inl ''GeekAI Request Failed: Cannot read properties of null''"
    by simp
  from f u a n 1 2 g3s g4s g5s show ?thesis by blast
qed

end
